theory Spec2Isabelle
  imports Complex_Main "HOL-Library.Sublist" "HOL-Library.AList"
begin

section \<open>Python values, exceptions and results\<close>

text \<open>
  The hosting control plane of \<^verbatim>\<open>src/main.py\<close> is a Flask application whose route handlers
  and helper functions mutate database rows, the file system, Docker containers, host
  processes and ngrok tunnels. Each helper is embedded as a function from the state it reads
  to the state it leaves; every answer of the outside world (a subprocess exit, a Docker API
  call, a socket probe) is read from an explicit record of oracles, so that a theorem
  quantified over that record holds whatever the outside world answers.

  An exception is a value. A function that may raise returns an \<open>outcome\<close>: the state it
  has reached, tagged with the exception when one left the function. State changes made
  before the \<^verbatim>\<open>raise\<close> stay visible, as they do in Python.
\<close>

type_synonym path = string

datatype exn =
    Exception string
  | CalledProcessError string string
  | KeyError string
  | TypeError string
  | ValueError string
  | AttributeError string
  | NameError string
  | ProcessLookupError string
  | IntegrityError string
  | ZeroDivisionError string
  | LibraryError string

text \<open>\<^verbatim>\<open>str(e)\<close>; a \<open>CalledProcessError\<close> carries its message and its \<^verbatim>\<open>output\<close>.\<close>

fun str_exn :: "exn \<Rightarrow> string" where
  "str_exn (Exception m) = m"
| "str_exn (CalledProcessError m out) = m"
| "str_exn (KeyError k) = [CHR 0x27] @ k @ [CHR 0x27]"
| "str_exn (TypeError m) = m"
| "str_exn (ValueError m) = m"
| "str_exn (AttributeError m) = m"
| "str_exn (NameError m) = m"
| "str_exn (ProcessLookupError m) = m"
| "str_exn (IntegrityError m) = m"
| "str_exn (ZeroDivisionError m) = m"
| "str_exn (LibraryError m) = m"

datatype 's outcome = Return 's | Raised exn 's

fun state_of :: "'s outcome \<Rightarrow> 's" where
  "state_of (Return s) = s"
| "state_of (Raised x s) = s"

fun raised :: "'s outcome \<Rightarrow> exn option" where
  "raised (Return s) = None"
| "raised (Raised x s) = Some x"

definition digit_char :: "nat \<Rightarrow> char" where
  "digit_char d = ''0123456789'' ! d"

text \<open>\<^verbatim>\<open>str(n)\<close> for a non-negative and for any integer.\<close>

fun str_nat :: "nat \<Rightarrow> string" where
  "str_nat n = (if n < 10 then [digit_char n] else str_nat (n div 10) @ [digit_char (n mod 10)])"

definition str_int :: "int \<Rightarrow> string" where
  "str_int i = (if i < 0 then ''-'' @ str_nat (nat (- i)) else str_nat (nat i))"

text \<open>Truthiness and \<^verbatim>\<open>str\<close> of a value that is a string or \<^verbatim>\<open>None\<close>.\<close>

definition truthy :: "string option \<Rightarrow> bool" where
  "truthy v = (case v of None \<Rightarrow> False | Some s \<Rightarrow> s \<noteq> [])"

definition py_str :: "string option \<Rightarrow> string" where
  "py_str v = (case v of None \<Rightarrow> ''None'' | Some s \<Rightarrow> s)"

text \<open>\<^verbatim>\<open>s.split()\<close>: the maximal runs of non-blank characters.\<close>

fun split_ws :: "string \<Rightarrow> string \<Rightarrow> string list" where
  "split_ws acc [] = (if acc = [] then [] else [acc])"
| "split_ws acc (c # cs) =
     (if c = CHR '' '' \<or> c = CHR 0x09 \<or> c = CHR 0x0A \<or> c = CHR 0x0D
      then (if acc = [] then split_ws [] cs else acc # split_ws [] cs)
      else split_ws (acc @ [c]) cs)"

definition str_split :: "string \<Rightarrow> string list" where
  "str_split s = split_ws [] s"

text \<open>\<^verbatim>\<open>' '.join(cmd)\<close>.\<close>

fun join_space :: "string list \<Rightarrow> string" where
  "join_space [] = []"
| "join_space [x] = x"
| "join_space (x # y # ys) = x @ '' '' @ join_space (y # ys)"

subsection \<open>Dictionaries decoded from JSON\<close>

text \<open>
  The statistics sample returned by the container engine is a nested dictionary of
  integers and lists. Subscripting a dictionary with a missing key raises \<open>KeyError\<close>;
  subscripting anything else with a string raises \<open>TypeError\<close>.
\<close>

datatype json = JNull | JInt int | JStr string | JList "json list" | JDict "(string \<times> json) list"

fun subscript :: "json \<Rightarrow> string \<Rightarrow> exn + json" where
  "subscript (JDict kvs) k = (case map_of kvs k of None \<Rightarrow> Inl (KeyError k) | Some v \<Rightarrow> Inr v)"
| "subscript JNull k = Inl (TypeError ''NoneType object is not subscriptable'')"
| "subscript (JInt i) k = Inl (TypeError ''int object is not subscriptable'')"
| "subscript (JStr s) k = Inl (TypeError ''string indices must be integers'')"
| "subscript (JList xs) k = Inl (TypeError ''list indices must be integers or slices'')"

fun subscripts :: "json \<Rightarrow> string list \<Rightarrow> exn + json" where
  "subscripts j [] = Inr j"
| "subscripts j (k # ks) = (case subscript j k of Inl x \<Rightarrow> Inl x | Inr v \<Rightarrow> subscripts v ks)"

text \<open>Subtraction of two decoded numbers, \<^verbatim>\<open>len\<close> of a decoded value.\<close>

fun py_sub :: "json \<Rightarrow> json \<Rightarrow> exn + int" where
  "py_sub (JInt a) (JInt b) = Inr (a - b)"
| "py_sub a b = Inl (TypeError ''unsupported operand type(s) for -'')"

fun py_len :: "json \<Rightarrow> exn + nat" where
  "py_len (JList xs) = Inr (length xs)"
| "py_len (JDict kvs) = Inr (length kvs)"
| "py_len (JStr s) = Inr (length s)"
| "py_len j = Inl (TypeError ''object has no len()'')"

text \<open>
  True division of integers. The quotient is taken in the reals: the rounding of the
  floating-point result is not modelled, its sign and the division by zero are.
\<close>

definition py_truediv :: "int \<Rightarrow> int \<Rightarrow> exn + real" where
  "py_truediv a b = (if b = 0 then Inl (ZeroDivisionError ''division by zero'')
                     else Inr (real_of_int a / real_of_int b))"

section \<open>CPU percentage of a statistics sample\<close>

text \<open>
  \<^verbatim>\<open>calculate_cpu_percent(stats)\<close>: both deltas are computed first, in the order of the
  source; the per-CPU list is read only in the branch that divides.
\<close>

definition cpu_delta_of :: "json \<Rightarrow> exn + int" where
  "cpu_delta_of stats =
     (case subscripts stats [''cpu_stats'', ''cpu_usage'', ''total_usage''] of
        Inl x \<Rightarrow> Inl x
      | Inr a \<Rightarrow>
          (case subscripts stats [''precpu_stats'', ''cpu_usage'', ''total_usage''] of
             Inl x \<Rightarrow> Inl x
           | Inr b \<Rightarrow> py_sub a b))"

definition system_delta_of :: "json \<Rightarrow> exn + int" where
  "system_delta_of stats =
     (case subscripts stats [''cpu_stats'', ''system_cpu_usage''] of
        Inl x \<Rightarrow> Inl x
      | Inr a \<Rightarrow>
          (case subscripts stats [''precpu_stats'', ''system_cpu_usage''] of
             Inl x \<Rightarrow> Inl x
           | Inr b \<Rightarrow> py_sub a b))"

definition calculate_cpu_percent :: "json \<Rightarrow> exn + real" where
  "calculate_cpu_percent stats =
     (case cpu_delta_of stats of
        Inl x \<Rightarrow> Inl x
      | Inr cpu_delta \<Rightarrow>
          (case system_delta_of stats of
             Inl x \<Rightarrow> Inl x
           | Inr system_delta \<Rightarrow>
               if system_delta > 0 \<and> cpu_delta > 0 then
                 (case py_truediv cpu_delta system_delta of
                    Inl x \<Rightarrow> Inl x
                  | Inr q \<Rightarrow>
                      (case subscripts stats [''cpu_stats'', ''cpu_usage'', ''percpu_usage''] of
                         Inl x \<Rightarrow> Inl x
                       | Inr per \<Rightarrow>
                           (case py_len per of
                              Inl x \<Rightarrow> Inl x
                            | Inr n \<Rightarrow> Inr (q * real n * 100))))
               else Inr 0))"

section \<open>Data model\<close>

subsection \<open>Plans, users, projects and tunnels\<close>

text \<open>\<^verbatim>\<open>Config.PLANS\<close> and \<^verbatim>\<open>User.get_plan_limits\<close>, which falls back to the free plan.\<close>

record plan_limits =
  max_projects :: int
  cpu_limit :: real
  memory_limit :: int
  disk_limit :: int
  max_ngrok_tunnels :: int

definition FREE_PLAN :: plan_limits where
  "FREE_PLAN = \<lparr>max_projects = 1, cpu_limit = 1 / 10, memory_limit = 512,
                disk_limit = 1024, max_ngrok_tunnels = 0\<rparr>"

definition PLANS :: "(string \<times> plan_limits) list" where
  "PLANS =
     [(''free'', FREE_PLAN),
      (''premium'', \<lparr>max_projects = 10, cpu_limit = 1 / 2, memory_limit = 2048,
                     disk_limit = 5120, max_ngrok_tunnels = 1\<rparr>),
      (''enterprise'', \<lparr>max_projects = - 1, cpu_limit = 2, memory_limit = 8192,
                        disk_limit = 20480, max_ngrok_tunnels = 5\<rparr>)]"

record user =
  u_id :: nat
  username :: string
  plan :: string

definition get_plan_limits :: "user \<Rightarrow> plan_limits" where
  "get_plan_limits u = (case map_of PLANS (plan u) of Some l \<Rightarrow> l | None \<Rightarrow> FREE_PLAN)"

text \<open>
  A row of the \<^verbatim>\<open>Project\<close> table. The primary key \<^verbatim>\<open>id\<close> is the field \<open>p_id\<close>. The
  column \<^verbatim>\<open>config\<close> holds the JSON text of a dictionary whose values are strings or
  \<^verbatim>\<open>null\<close>; it is kept here as the decoded dictionary, in insertion order, so that
  \<^verbatim>\<open>json.loads(project.config)\<close> is the field itself. The relationship \<^verbatim>\<open>project.user\<close>
  is the field \<open>user\<close>. The status and the template are strings, as in the source.
\<close>

type_synonym config = "(string \<times> string option) list"

record project =
  p_id :: nat
  name :: string
  description :: "string option"
  template :: string
  status :: string
  user_id :: nat
  updated_at :: string
  port :: int
  config :: config
  container_id :: "string option"
  ngrok_tunnel_id :: "nat option"
  github_repo :: "string option"
  user :: user

text \<open>A row of the \<^verbatim>\<open>NgrokTunnel\<close> table; \<^verbatim>\<open>id\<close> and \<^verbatim>\<open>user_id\<close> are \<open>t_id\<close> and \<open>t_user_id\<close>.\<close>

record ngrok_tunnel =
  t_id :: nat
  t_user_id :: nat
  project_id :: "nat option"
  public_url :: string
  local_port :: int
  proto :: string
  active :: bool

text \<open>\<^verbatim>\<open>config.get(k)\<close> and \<^verbatim>\<open>config.get(k, d)\<close>: the default replaces a missing key only.\<close>

definition config_get :: "config \<Rightarrow> string \<Rightarrow> string option" where
  "config_get c k = (case map_of c k of None \<Rightarrow> None | Some v \<Rightarrow> v)"

definition config_get_default :: "config \<Rightarrow> string \<Rightarrow> string \<Rightarrow> string option" where
  "config_get_default c k d = (case map_of c k of None \<Rightarrow> Some d | Some v \<Rightarrow> v)"

subsection \<open>The file system\<close>

text \<open>
  A file holds the chunks written to it. A chunk is a text or one of the module's template
  constants, with the values substituted into it.
\<close>

datatype chunk =
    Text string
  | PYROGRAM_BOT_TEMPLATE string string string
  | STATIC_SITE_TEMPLATE
  | STATIC_SITE_APP
  | WEB_SERVICE_TEMPLATE
  | WORKER_TEMPLATE
  | VPS_DOCKERFILE string string
  | VPS_STARTUP_SCRIPT

datatype node = Dir | File "chunk list"

type_synonym filesystem = "path \<Rightarrow> node option"

text \<open>\<^verbatim>\<open>os.path.join\<close> on POSIX paths: an absolute component discards what precedes it.\<close>

definition path_join :: "path \<Rightarrow> path \<Rightarrow> path" where
  "path_join a b =
     (if b \<noteq> [] \<and> hd b = CHR ''/'' then b
      else if a = [] \<or> last a = CHR ''/'' then a @ b
      else a @ ''/'' @ b)"

definition os_path_join :: "path \<Rightarrow> path list \<Rightarrow> path" where
  "os_path_join a bs = foldl path_join a bs"

text \<open>
  \<^verbatim>\<open>os.makedirs(p, exist_ok=True)\<close> creates \<open>p\<close> and every missing ancestor;
  \<^verbatim>\<open>open(f, 'w')\<close> creates or truncates \<open>f\<close>; \<^verbatim>\<open>open(f, 'a')\<close> followed by one write
  appends a chunk; \<^verbatim>\<open>shutil.rmtree(d)\<close> removes \<open>d\<close> and everything below it. Failures of
  the operating system (permissions, a full disk) are outside the model, except where an
  oracle of the environment says otherwise.
\<close>

definition ancestors :: "path \<Rightarrow> path list" where
  "ancestors p = map (\<lambda>i. take i p) (filter (\<lambda>i. p ! i = CHR ''/'') [1..<length p])"

definition makedirs :: "path \<Rightarrow> filesystem \<Rightarrow> filesystem" where
  "makedirs p f =
     (\<lambda>q. if (q = p \<or> q \<in> set (ancestors p)) \<and> f q = None then Some Dir else f q)"

definition open_w :: "path \<Rightarrow> filesystem \<Rightarrow> filesystem" where
  "open_w p f = f(p \<mapsto> File [])"

definition write_file :: "path \<Rightarrow> chunk list \<Rightarrow> filesystem \<Rightarrow> filesystem" where
  "write_file p cs f = f(p \<mapsto> File cs)"

definition append_file :: "path \<Rightarrow> chunk \<Rightarrow> filesystem \<Rightarrow> filesystem" where
  "append_file p c f =
     (case f p of Some (File cs) \<Rightarrow> f(p \<mapsto> File (cs @ [c])) | _ \<Rightarrow> f(p \<mapsto> File [c]))"


definition path_exists :: "filesystem \<Rightarrow> path \<Rightarrow> bool" where
  "path_exists f p = (f p \<noteq> None)"

subsection \<open>The world and its oracles\<close>

datatype cstate = Created | Started | Exited

text \<open>The background threads started by a launch, with the arguments they were given.\<close>

datatype task =
    Monitor_container_health project string
  | Monitor_native_process int project path

text \<open>
  The mutable world: the two database tables, the file system, the containers known to
  the engine, the live host processes, the signals sent so far, the public URLs that ngrok
  serves, and the threads started.

  The tables hold what has been committed. A handler works on a row object of its own
  session; \<^verbatim>\<open>db.session.commit()\<close> writes the fields of the object to its row
  (\<open>store\<close> below), and what a request assigned after its last commit is dropped with
  the session when the request ends. A monitor thread keeps the row object it was started
  with, but reads the row again, in a session of its own, before it writes.
\<close>

record world =
  projects :: "project list"
  tunnels :: "ngrok_tunnel list"
  fs :: filesystem
  containers :: "string \<Rightarrow> cstate option"
  procs :: "int set"
  signals :: "(int \<times> string) list"
  ngrok_live :: "string set"
  threads :: "task list"

text \<open>The arguments of \<^verbatim>\<open>docker_client.containers.create\<close>.\<close>

record create_args =
  image :: string
  container_name :: string
  detach :: bool
  mem_limit :: string
  cpu_quota :: int
  cpu_period :: int
  ports :: "(string \<times> int) list"
  volumes :: "(path \<times> string \<times> string) list"

text \<open>
  The environment: the module-level globals fixed at start-up and one oracle for each call
  that leaves the program. An oracle that returns an exception stands for the call raising
  it. \<open>py_int\<close> is the
  builtin \<^verbatim>\<open>int\<close> on strings. \<open>connect_ex e port i\<close> is the \<open>i\<close>-th socket probe of the
  readiness monitor and \<open>time_sleep e s i\<close> the \<open>i\<close>-th sleep of \<open>s\<close> seconds; \<open>gone_after_term
  e pid i\<close> says whether the process has exited at the \<open>i\<close>-th poll after SIGTERM.
\<close>

record env =
  docker_available :: bool
  PROJECTS_ROOT :: path
  now :: string
  sys_executable :: string
  py_int :: "string \<Rightarrow> int option"
  git_clone :: "string \<Rightarrow> path \<Rightarrow> exn + (string \<times> (path \<times> node) list)"
  images_build :: "path \<Rightarrow> string \<Rightarrow> exn option"
  containers_create :: "create_args \<Rightarrow> exn + string"
  container_start :: "string \<Rightarrow> exn option"
  container_stop :: "string \<Rightarrow> exn option"
  container_remove :: "string \<Rightarrow> exn option"
  container_stats :: "string \<Rightarrow> exn + json"
  pip_install :: "path \<Rightarrow> path \<Rightarrow> exn + string"
  run_command :: "string list \<Rightarrow> path \<Rightarrow> exn + string"
  popen :: "string list \<Rightarrow> path \<Rightarrow> exn + int"
  proc_readlines :: "int \<Rightarrow> string list"
  proc_read_error :: "int \<Rightarrow> exn option"
  proc_wait :: "int \<Rightarrow> int"
  os_kill_error :: "int \<Rightarrow> exn option"
  gone_after_term :: "int \<Rightarrow> nat \<Rightarrow> bool"
  ngrok_connect :: "int \<Rightarrow> exn + string"
  ngrok_disconnect :: "string \<Rightarrow> exn option"
  rmtree_error :: "path \<Rightarrow> exn option"
  connect_ex :: "int \<Rightarrow> nat \<Rightarrow> exn + int"
  time_sleep :: "nat \<Rightarrow> nat \<Rightarrow> exn option"

subsection \<open>Rows and relationships\<close>

text \<open>
  \<^verbatim>\<open>db.session.get(Project, i)\<close>, the write-back of a row object, and the scalar
  relationship \<^verbatim>\<open>project.ngrok_tunnel\<close> (declared with \<^verbatim>\<open>uselist=False\<close>), which resolves
  to the first tunnel row whose \<open>project_id\<close> is the project.
\<close>

definition db_get :: "project list \<Rightarrow> nat \<Rightarrow> project option" where
  "db_get ps i = find (\<lambda>p. p_id p = i) ps"

definition db_put :: "project \<Rightarrow> project list \<Rightarrow> project list" where
  "db_put p ps = map (\<lambda>q. if p_id q = p_id p then p else q) ps"


definition store :: "project \<Rightarrow> world \<Rightarrow> world" where
  "store p w = w\<lparr>projects := db_put p (projects w)\<rparr>"

definition ngrok_tunnel_of :: "world \<Rightarrow> project \<Rightarrow> ngrok_tunnel option" where
  "ngrok_tunnel_of w p = find (\<lambda>t. project_id t = Some (p_id p)) (tunnels w)"

definition fresh_id :: "nat list \<Rightarrow> nat" where
  "fresh_id ids = Suc (fold max ids 0)"

text \<open>\<^verbatim>\<open>get_project_dir(project)\<close>.\<close>

definition get_project_dir :: "env \<Rightarrow> project \<Rightarrow> path" where
  "get_project_dir e p =
     os_path_join (PROJECTS_ROOT e) [username (user p), ''projects'', str_nat (p_id p)]"

definition append_log :: "path \<Rightarrow> string \<Rightarrow> world \<Rightarrow> world" where
  "append_log log_file s w = w\<lparr>fs := append_file log_file (Text s) (fs w)\<rparr>"

text \<open>The HTTP answers of the handlers: \<^verbatim>\<open>jsonify({'success': .., 'message': ..}), code\<close>,
  the statistics answer, a redirect, a rendered page with its error, and the answer 500 of
  the framework to an exception that no handler caught.\<close>

datatype response =
    Jsonify bool string nat
  | Stats_json real real string
  | Redirect string
  | Render_template string "string option"
  | Unhandled exn

section \<open>Terminating a backend\<close>

text \<open>
  \<^verbatim>\<open>stop_docker_deployment(project)\<close>: look the container up, stop it, remove it, clear the
  handle. Whatever is raised on the way is raised again as
  \<^verbatim>\<open>Exception("Failed to stop Docker container: ...")\<close>, and the handle is then not cleared.
\<close>

definition docker_stop_failed :: "exn \<Rightarrow> exn" where
  "docker_stop_failed x = Exception (''Failed to stop Docker container: '' @ str_exn x)"

definition stop_docker_deployment :: "env \<Rightarrow> project \<Rightarrow> world \<Rightarrow> (project \<times> world) outcome" where
  "stop_docker_deployment e p w =
     (case container_id p of
        None \<Rightarrow> Raised (docker_stop_failed (LibraryError ''Resource ID was not provided'')) (p, w)
      | Some cid \<Rightarrow>
          (case containers w cid of
             None \<Rightarrow> Raised (docker_stop_failed (LibraryError (''No such container: '' @ cid))) (p, w)
           | Some st \<Rightarrow>
               (case container_stop e cid of
                  Some x \<Rightarrow> Raised (docker_stop_failed x) (p, w)
                | None \<Rightarrow>
                    (let w1 = w\<lparr>containers := (containers w)(cid \<mapsto> Exited)\<rparr> in
                     case container_remove e cid of
                       Some x \<Rightarrow> Raised (docker_stop_failed x) (p, w1)
                     | None \<Rightarrow>
                         Return (p\<lparr>container_id := None\<rparr>,
                                 w1\<lparr>containers := (containers w1)(cid := None)\<rparr>)))))"

text \<open>
  The polling loop of \<^verbatim>\<open>stop_native_deployment\<close>: up to \<open>n\<close> probes with signal 0, one
  second apart, left at the first probe that finds the process gone. The result is the
  number of probes made and whether the process was found gone.
\<close>

fun poll_exit :: "(nat \<Rightarrow> bool) \<Rightarrow> nat \<Rightarrow> nat \<Rightarrow> nat \<times> bool" where
  "poll_exit gone i 0 = (i, False)"
| "poll_exit gone i (Suc n) = (if gone i then (Suc i, True) else poll_exit gone (Suc i) n)"

definition native_stop_failed :: "exn \<Rightarrow> exn" where
  "native_stop_failed x = Exception (''Failed to stop native process: '' @ str_exn x)"

text \<open>
  \<^verbatim>\<open>stop_native_deployment(project)\<close>: nothing happens when the handle is \<^verbatim>\<open>None\<close> or
  empty. Otherwise the handle is read as a process id, SIGTERM is sent (which raises when
  the process does not exist), the process is polled for ten seconds and, when it is still
  there at the last probe, killed with SIGKILL; then the handle is cleared.
\<close>

definition stop_native_deployment :: "env \<Rightarrow> project \<Rightarrow> world \<Rightarrow> (project \<times> world) outcome" where
  "stop_native_deployment e p w =
     (if \<not> truthy (container_id p) then Return (p, w)
      else
        (case py_int e (py_str (container_id p)) of
           None \<Rightarrow>
             Raised (native_stop_failed
                       (ValueError (''invalid literal for int() with base 10: ''
                                    @ py_str (container_id p)))) (p, w)
         | Some pid \<Rightarrow>
             if pid \<notin> procs w then
               Raised (native_stop_failed (ProcessLookupError ''[Errno 3] No such process'')) (p, w)
             else
               (case os_kill_error e pid of
                  Some x \<Rightarrow> Raised (native_stop_failed x) (p, w)
                | None \<Rightarrow>
                    (let w1 = w\<lparr>signals := signals w @ [(pid, ''SIGTERM'')]\<rparr>;
                         (i, found_gone) = poll_exit (gone_after_term e pid) 0 10;
                         still_there = \<not> found_gone \<and> \<not> gone_after_term e pid i;
                         w2 = (if still_there
                               then w1\<lparr>signals := signals w1 @ [(pid, ''SIGKILL'')]\<rparr>
                               else w1)
                     in Return (p\<lparr>container_id := None\<rparr>, w2\<lparr>procs := procs w2 - {pid}\<rparr>)))))"

text \<open>
  The dispatch written out in \<^verbatim>\<open>stop_project\<close>, \<^verbatim>\<open>restart_project\<close> and
  \<^verbatim>\<open>delete_project\<close>: the container path when an engine is available and the handle is
  set, the native path otherwise.
\<close>

definition terminate_backend :: "env \<Rightarrow> project \<Rightarrow> world \<Rightarrow> (project \<times> world) outcome" where
  "terminate_backend e p w =
     (if docker_available e \<and> truthy (container_id p) then stop_docker_deployment e p w
      else stop_native_deployment e p w)"

section \<open>Tunnels\<close>


text \<open>
  \<^verbatim>\<open>start_ngrok_for_project(project, ngrok_token)\<close>: sleep ten seconds, open the tunnel,
  add its row and point the project at it. An exception is logged and raised again.
\<close>

definition start_ngrok_for_project :: "env \<Rightarrow> project \<Rightarrow> string \<Rightarrow> world \<Rightarrow> world outcome" where
  "start_ngrok_for_project e p ngrok_token w =
     (case time_sleep e 10 0 of
        Some x \<Rightarrow> Raised x w
      | None \<Rightarrow>
          (case ngrok_connect e (port p) of
             Inl x \<Rightarrow> Raised x w
           | Inr url \<Rightarrow>
               (let t = \<lparr>t_id = fresh_id (map t_id (tunnels w)), t_user_id = user_id p,
                         project_id = Some (p_id p), public_url = url, local_port = port p,
                         proto = ''http'', active = True\<rparr>;
                    w1 = w\<lparr>tunnels := tunnels w @ [t], ngrok_live := insert url (ngrok_live w)\<rparr>
                in Return (store (p\<lparr>ngrok_tunnel_id := Some (t_id t)\<rparr>) w1))))"

section \<open>Readiness monitors\<close>

definition NETWORK_TEMPLATES :: "string list" where
  "NETWORK_TEMPLATES = [''static-site'', ''web-service'', ''github-docker'', ''github-custom'']"

definition TUNNEL_TEMPLATES :: "string list" where
  "TUNNEL_TEMPLATES = [''web-service'', ''static-site'', ''github-docker'', ''github-custom'']"

text \<open>
  The loop \<^verbatim>\<open>for _ in range(30)\<close> of \<^verbatim>\<open>monitor_container_health\<close>: probe the port, leave
  the loop when \<^verbatim>\<open>connect_ex\<close> returns 0, otherwise (also when the probe raised, which the
  bare \<^verbatim>\<open>except\<close> drops) sleep one second. The result is the exception that left the loop,
  if any; a loop that ran out of attempts ends like one that found the port open.
\<close>

fun wait_for_port :: "env \<Rightarrow> int \<Rightarrow> nat \<Rightarrow> nat \<Rightarrow> exn option" where
  "wait_for_port e prt i 0 = None"
| "wait_for_port e prt i (Suc n) =
     (if connect_ex e prt i = Inr 0 then None
      else (case time_sleep e 1 i of
              Some x \<Rightarrow> Some x
            | None \<Rightarrow> wait_for_port e prt (Suc i) n))"

definition wait_until_ready :: "env \<Rightarrow> project \<Rightarrow> exn option" where
  "wait_until_ready e p =
     (if template p \<in> set NETWORK_TEMPLATES then wait_for_port e (port p) 0 30
      else if template p = ''vps'' then wait_for_port e 7681 0 30
      else if template p = ''pyrogram-bot'' then time_sleep e 120 0
      else if template p = ''worker'' then time_sleep e 10 0
      else None)"

text \<open>
  \<^verbatim>\<open>monitor_container_health(project, container)\<close>. After the wait the row is read again
  by its id; a row that is gone is left alone. The exception of the tunnel start is logged
  and dropped by the inner handler.
\<close>

definition monitor_container_health :: "env \<Rightarrow> project \<Rightarrow> string \<Rightarrow> world \<Rightarrow> world" where
  "monitor_container_health e p container w =
     (case wait_until_ready e p of
        None \<Rightarrow>
          (case db_get (projects w) (p_id p) of
             None \<Rightarrow> w
           | Some q \<Rightarrow>
               (let q1 = q\<lparr>status := ''running'', updated_at := now e\<rparr>;
                    w1 = store q1 w;
                    ngrok_token = config_get (config q1) ''ngrok_token''
                in if truthy ngrok_token \<and> template q1 \<in> set TUNNEL_TEMPLATES
                   then state_of (start_ngrok_for_project e q1 (py_str ngrok_token) w1)
                   else w1))
      | Some x \<Rightarrow>
          (case db_get (projects w) (p_id p) of
             None \<Rightarrow> w
           | Some q \<Rightarrow> store (q\<lparr>status := ''error'', updated_at := now e\<rparr>) w))"

text \<open>
  \<^verbatim>\<open>monitor_native_process(process, project, log_file)\<close>. The lines read before the end of
  the output are appended to the log file one by one. When reading raised, the handler
  writes the error and sets the status to \<^verbatim>\<open>error\<close>. Otherwise the process is waited for,
  its exit code is appended and the status becomes \<^verbatim>\<open>running\<close> for code 0 and
  \<^verbatim>\<open>error\<close> for any other code.
\<close>

definition drain_output :: "env \<Rightarrow> int \<Rightarrow> path \<Rightarrow> world \<Rightarrow> world" where
  "drain_output e pid log_file w =
     fold (\<lambda>line. append_log log_file line)
          (filter (\<lambda>line. line \<noteq> []) (takeWhile (\<lambda>line. line \<noteq> []) (proc_readlines e pid))) w"



section \<open>Launching a backend\<close>

definition GITHUB_TEMPLATES :: "string list" where
  "GITHUB_TEMPLATES = [''github-docker'', ''github-custom'']"

subsection \<open>The container backend\<close>

text \<open>
  The first \<^verbatim>\<open>try\<close> block of \<^verbatim>\<open>start_docker_deployment\<close>: clone the repository of a
  GitHub template, then build the image. A failed clone is raised as
  \<^verbatim>\<open>Exception("Failed to clone GitHub repository: ...")\<close>; that exception, like any other
  of the block, is caught by the outer handler and raised again as
  \<^verbatim>\<open>Exception("Failed to build Docker image: ...")\<close>.
\<close>

definition docker_clone :: "env \<Rightarrow> project \<Rightarrow> world \<Rightarrow> world outcome" where
  "docker_clone e p w =
     (if template p \<in> set GITHUB_TEMPLATES then
        (let github_repo = config_get (config p) ''github_repo'' in
         if truthy github_repo then
           (case git_clone e (py_str github_repo) (get_project_dir e p) of
              Inr (out, files) \<Rightarrow> Return (w\<lparr>fs := fs w ++ map_of files\<rparr>)
            | Inl (CalledProcessError m out) \<Rightarrow>
                Raised (Exception (''Failed to clone GitHub repository: ''
                                   @ str_exn (CalledProcessError m out))) w
            | Inl x \<Rightarrow> Raised x w)
         else Return w)
      else Return w)"

definition image_tag_of :: "project \<Rightarrow> string" where
  "image_tag_of p = ''kustify-'' @ str_nat (p_id p)"

definition docker_build :: "env \<Rightarrow> project \<Rightarrow> world \<Rightarrow> world outcome" where
  "docker_build e p w =
     (case docker_clone e p w of
        Raised x w1 \<Rightarrow> Raised (Exception (''Failed to build Docker image: '' @ str_exn x)) w1
      | Return w1 \<Rightarrow>
          (case images_build e (get_project_dir e p) (image_tag_of p) of
             Some x \<Rightarrow> Raised (Exception (''Failed to build Docker image: '' @ str_exn x)) w1
           | None \<Rightarrow> Return w1))"

definition port_mapping_of :: "project \<Rightarrow> (string \<times> int) list" where
  "port_mapping_of p =
     (if template p \<in> set NETWORK_TEMPLATES then [(str_int (port p) @ ''/tcp'', port p)] else [])
     @ (if template p = ''vps'' then [(''7681/tcp'', 7681)] else [])"

definition create_args_of :: "env \<Rightarrow> project \<Rightarrow> create_args" where
  "create_args_of e p =
     (let project_dir = get_project_dir e p; plan_limits = get_plan_limits (user p) in
      \<lparr>image = image_tag_of p,
       container_name = ''kustify-'' @ str_nat (p_id p),
       detach = True,
       mem_limit = str_int (memory_limit plan_limits) @ ''m'',
       cpu_quota = \<lfloor>cpu_limit plan_limits * 100000\<rfloor>,
       cpu_period = 100000,
       ports = port_mapping_of p,
       volumes = [(project_dir, ''/app'', ''rw''),
                  (path_join project_dir ''logs'', ''/app/logs'', ''rw'')]\<rparr>)"

definition docker_start_failed :: "exn \<Rightarrow> exn" where
  "docker_start_failed x = Exception (''Failed to start Docker container: '' @ str_exn x)"

text \<open>
  \<^verbatim>\<open>start_docker_deployment(project)\<close>: after the build, create the container, start it,
  store its id as the handle and start the monitor thread. The handle is assigned only
  after \<^verbatim>\<open>container.start()\<close> has returned.
\<close>

definition start_docker_deployment :: "env \<Rightarrow> project \<Rightarrow> world \<Rightarrow> (project \<times> world) outcome" where
  "start_docker_deployment e p w =
     (case docker_build e p w of
        Raised x w1 \<Rightarrow> Raised x (p, w1)
      | Return w1 \<Rightarrow>
          (case containers_create e (create_args_of e p) of
             Inl x \<Rightarrow> Raised (docker_start_failed x) (p, w1)
           | Inr cid \<Rightarrow>
               (let w2 = w1\<lparr>containers := (containers w1)(cid \<mapsto> Created)\<rparr> in
                case container_start e cid of
                  Some x \<Rightarrow> Raised (docker_start_failed x) (p, w2)
                | None \<Rightarrow>
                    (let p1 = p\<lparr>container_id := Some cid\<rparr> in
                     Return (p1, w2\<lparr>containers := (containers w2)(cid \<mapsto> Started),
                                      threads := threads w2 @ [Monitor_container_health p1 cid]\<rparr>)))))"

subsection \<open>The native backend\<close>

text \<open>
  The steps of \<^verbatim>\<open>start_native_deployment\<close>, each appending to the log file what it does.
  A subprocess that exits with a non-zero code is a \<open>CalledProcessError\<close>; its handler
  appends the error and raises an \<open>Exception\<close> with the output. Any other exception leaves
  the function as it is.
\<close>

definition native_clone :: "env \<Rightarrow> project \<Rightarrow> path \<Rightarrow> world \<Rightarrow> world outcome" where
  "native_clone e p log_file w =
     (if template p \<in> set GITHUB_TEMPLATES then
        (let github_repo = config_get (config p) ''github_repo'' in
         if truthy github_repo then
           (let w1 = append_log log_file
                       (''Cloning GitHub repository: '' @ py_str github_repo @ ''\<newline>'') w in
            case git_clone e (py_str github_repo) (get_project_dir e p) of
              Inr (out, files) \<Rightarrow> Return (append_log log_file out (w1\<lparr>fs := fs w1 ++ map_of files\<rparr>))
            | Inl (CalledProcessError m out) \<Rightarrow>
                Raised (Exception (''Failed to clone GitHub repository: '' @ out))
                       (append_log log_file (''Error cloning GitHub repository: '' @ out @ ''\<newline>'') w1)
            | Inl x \<Rightarrow> Raised x w1)
         else Return w)
      else Return w)"

definition native_install :: "env \<Rightarrow> project \<Rightarrow> path \<Rightarrow> world \<Rightarrow> world outcome" where
  "native_install e p log_file w =
     (let project_dir = get_project_dir e p;
          requirements_file = path_join project_dir ''requirements.txt''
      in if path_exists (fs w) requirements_file then
           (let w1 = append_log log_file ''Installing requirements...\<newline>'' w in
            case pip_install e requirements_file project_dir of
              Inr out \<Rightarrow> Return (append_log log_file out w1)
            | Inl (CalledProcessError m out) \<Rightarrow>
                Raised (Exception (''Failed to install requirements: '' @ out))
                       (append_log log_file (''Error installing requirements: '' @ out @ ''\<newline>'') w1)
            | Inl x \<Rightarrow> Raised x w1)
         else Return w)"

definition native_build :: "env \<Rightarrow> project \<Rightarrow> path \<Rightarrow> world \<Rightarrow> world outcome" where
  "native_build e p log_file w =
     (let build_command = config_get (config p) ''build_command'' in
      if template p = ''github-custom'' \<and> truthy build_command then
        (let w1 = append_log log_file
                    (''Running build command: '' @ py_str build_command @ ''\<newline>'') w in
         case run_command e (str_split (py_str build_command)) (get_project_dir e p) of
           Inr out \<Rightarrow> Return (append_log log_file out w1)
         | Inl (CalledProcessError m out) \<Rightarrow>
             Raised (Exception (''Failed to run build command: '' @ out))
                    (append_log log_file (''Error running build command: '' @ out @ ''\<newline>'') w1)
         | Inl x \<Rightarrow> Raised x w1)
      else Return w)"

text \<open>
  The command of the template. A \<^verbatim>\<open>main_file\<close> stored as \<^verbatim>\<open>null\<close> makes
  \<^verbatim>\<open>' '.join(cmd)\<close> raise, a missing start command makes \<^verbatim>\<open>start_command.split()\<close> raise,
  and the templates \<^verbatim>\<open>vps\<close> and \<^verbatim>\<open>github-docker\<close> have no native command.
\<close>

definition main_file_command :: "env \<Rightarrow> project \<Rightarrow> exn + string list" where
  "main_file_command e p =
     (case config_get_default (config p) ''main_file'' ''main.py'' of
        None \<Rightarrow> Inl (TypeError ''sequence item 1: expected str instance, NoneType found'')
      | Some f \<Rightarrow> Inr [sys_executable e, f])"

definition launch_command :: "env \<Rightarrow> project \<Rightarrow> exn + string list" where
  "launch_command e p =
     (if template p = ''pyrogram-bot'' then Inr [sys_executable e, ''bot.py'']
      else if template p = ''static-site'' then Inr [sys_executable e, ''app.py'']
      else if template p = ''web-service'' then main_file_command e p
      else if template p = ''worker'' then main_file_command e p
      else if template p = ''github-custom'' then
        (case config_get (config p) ''start_command'' of
           None \<Rightarrow> Inl (AttributeError ''NoneType object has no attribute split'')
         | Some start_command \<Rightarrow> Inr (str_split start_command))
      else Inl (Exception (''Unknown template: '' @ template p)))"

definition native_spawn :: "env \<Rightarrow> project \<Rightarrow> path \<Rightarrow> world \<Rightarrow> (project \<times> world) outcome" where
  "native_spawn e p log_file w =
     (case launch_command e p of
        Inl x \<Rightarrow> Raised x (p, w)
      | Inr cmd \<Rightarrow>
          (let w1 = append_log log_file
                      (''Starting application with command: '' @ join_space cmd @ ''\<newline>'') w in
           case popen e cmd (get_project_dir e p) of
             Inl x \<Rightarrow> Raised x (p, w1)
           | Inr pid \<Rightarrow>
               (let p1 = p\<lparr>container_id := Some (str_int pid)\<rparr> in
                Return (p1, w1\<lparr>procs := insert pid (procs w1),
                                 threads := threads w1 @ [Monitor_native_process pid p1 log_file]\<rparr>))))"

text \<open>The three preparing steps in sequence: the first exception ends them.\<close>

definition native_prepare :: "env \<Rightarrow> project \<Rightarrow> path \<Rightarrow> world \<Rightarrow> world outcome" where
  "native_prepare e p log_file w =
     (case native_clone e p log_file w of
        Raised x w1 \<Rightarrow> Raised x w1
      | Return w1 \<Rightarrow>
          (case native_install e p log_file w1 of
             Raised x w2 \<Rightarrow> Raised x w2
           | Return w2 \<Rightarrow> native_build e p log_file w2))"

text \<open>
  \<^verbatim>\<open>start_native_deployment(project)\<close>: create the logs directory, start the log file
  afresh, prepare, spawn. The handle is assigned only after \<^verbatim>\<open>subprocess.Popen\<close> has
  returned.
\<close>

definition start_native_deployment :: "env \<Rightarrow> project \<Rightarrow> world \<Rightarrow> (project \<times> world) outcome" where
  "start_native_deployment e p w =
     (let project_dir = get_project_dir e p;
          logs_dir = path_join project_dir ''logs'';
          log_file = path_join logs_dir ''app.log'';
          w0 = w\<lparr>fs := write_file log_file [Text (''Starting deployment at '' @ now e @ ''\<newline>'')]
                            (makedirs logs_dir (fs w))\<rparr>
      in case native_prepare e p log_file w0 of
           Raised x w1 \<Rightarrow> Raised x (p, w1)
         | Return w1 \<Rightarrow> native_spawn e p log_file w1)"

section \<open>Lifecycle commands\<close>

text \<open>
  Each handler first reads the row and answers 403 when there is none or when it belongs
  to another user.
\<close>

definition owned_project :: "world \<Rightarrow> user \<Rightarrow> nat \<Rightarrow> project option" where
  "owned_project w current_user i =
     (case db_get (projects w) i of
        None \<Rightarrow> None
      | Some p \<Rightarrow> if user_id p \<noteq> u_id current_user then None else Some p)"

definition UNAUTHORIZED :: response where
  "UNAUTHORIZED = Jsonify False ''Unauthorized'' 403"

definition launch :: "env \<Rightarrow> project \<Rightarrow> world \<Rightarrow> (project \<times> world) outcome" where
  "launch e p w =
     (if docker_available e then start_docker_deployment e p w else start_native_deployment e p w)"

text \<open>
  \<^verbatim>\<open>start_project(project_id)\<close>: the only status that is refused is \<^verbatim>\<open>running\<close>. Any
  other status is overwritten with \<^verbatim>\<open>deploying\<close>, which is committed, and the backend is
  launched. Nothing is committed after a launch that returned, so the handle that the
  launch assigned to the row object is not written to the row. An exception of the launch
  sets the status to \<^verbatim>\<open>error\<close>, which is committed, and is answered with its message
  and 500.
\<close>

definition start_project :: "env \<Rightarrow> user \<Rightarrow> nat \<Rightarrow> world \<Rightarrow> response \<times> world" where
  "start_project e current_user i w =
     (case owned_project w current_user i of
        None \<Rightarrow> (UNAUTHORIZED, w)
      | Some p \<Rightarrow>
          if status p = ''running'' then (Jsonify False ''Project is already running'' 400, w)
          else
            (let p1 = p\<lparr>status := ''deploying''\<rparr> in
             case launch e p1 (store p1 w) of
               Return (p2, w2) \<Rightarrow> (Jsonify True ''Project is starting'' 200, w2)
             | Raised x (p2, w2) \<Rightarrow>
                 (Jsonify False (str_exn x) 500,
                  store (p2\<lparr>status := ''error'', updated_at := now e\<rparr>) w2)))"

text \<open>
  \<^verbatim>\<open>stop_project(project_id)\<close>: refused unless the status is \<^verbatim>\<open>running\<close>. The status is
  assigned after the termination has returned and committed together with the cleared
  handle; when the termination raises, the handler answers with the message and 500 and
  neither assigns nor commits anything.
\<close>

definition stop_project :: "env \<Rightarrow> user \<Rightarrow> nat \<Rightarrow> world \<Rightarrow> response \<times> world" where
  "stop_project e current_user i w =
     (case owned_project w current_user i of
        None \<Rightarrow> (UNAUTHORIZED, w)
      | Some p \<Rightarrow>
          if status p \<noteq> ''running'' then (Jsonify False ''Project is not running'' 400, w)
          else
            (case terminate_backend e p w of
               Return (p1, w1) \<Rightarrow>
                 (Jsonify True ''Project stopped successfully'' 200,
                  store (p1\<lparr>status := ''stopped'', updated_at := now e\<rparr>) w1)
             | Raised x (p1, w1) \<Rightarrow> (Jsonify False (str_exn x) 500, w1)))"




text \<open>
  \<^verbatim>\<open>project_stats(project_id)\<close>: refused unless the status is \<^verbatim>\<open>running\<close>; the world is
  only read.
\<close>

definition memory_usage_of :: "json \<Rightarrow> exn + real" where
  "memory_usage_of stats =
     (case subscripts stats [''memory_stats'', ''usage''] of
        Inl x \<Rightarrow> Inl x
      | Inr (JInt u) \<Rightarrow> Inr (real_of_int u / (1024 * 1024))
      | Inr j \<Rightarrow> Inl (TypeError ''unsupported operand type(s) for /''))"

definition container_stats_response :: "env \<Rightarrow> project \<Rightarrow> world \<Rightarrow> string \<Rightarrow> response" where
  "container_stats_response e p w cid =
     (case containers w cid of
        None \<Rightarrow> Jsonify False (str_exn (LibraryError (''No such container: '' @ cid))) 500
      | Some st \<Rightarrow>
          (case container_stats e cid of
             Inl x \<Rightarrow> Jsonify False (str_exn x) 500
           | Inr stats \<Rightarrow>
               (case calculate_cpu_percent stats of
                  Inl x \<Rightarrow> Jsonify False (str_exn x) 500
                | Inr cpu_percent \<Rightarrow>
                    (case memory_usage_of stats of
                       Inl x \<Rightarrow> Jsonify False (str_exn x) 500
                     | Inr memory_usage \<Rightarrow> Stats_json cpu_percent memory_usage (status p)))))"

definition project_stats :: "env \<Rightarrow> user \<Rightarrow> nat \<Rightarrow> world \<Rightarrow> response" where
  "project_stats e current_user i w =
     (case owned_project w current_user i of
        None \<Rightarrow> UNAUTHORIZED
      | Some p \<Rightarrow>
          if status p \<noteq> ''running'' then Jsonify False ''Project is not running'' 400
          else if docker_available e \<and> truthy (container_id p)
            then container_stats_response e p w (py_str (container_id p))
          else if \<not> truthy (container_id p)
            then Jsonify False ''Native deployment stats not available'' 400
          else Jsonify False ''Container not found'' 404)"

section \<open>Creating a project\<close>

subsection \<open>Materialising a template\<close>

text \<open>
  \<^verbatim>\<open>setup_project(project, config)\<close> works on the file system only. The logs directory is
  created first, for every template. \<^verbatim>\<open>open(f, 'w')\<close> creates the file before the argument
  of \<^verbatim>\<open>f.write\<close> is evaluated, so a \<open>KeyError\<close> of \<^verbatim>\<open>config['bot_token']\<close> or a \<open>TypeError\<close>
  of writing \<^verbatim>\<open>None\<close> leaves an empty file behind. A value stored as \<^verbatim>\<open>null\<close> is formatted
  into the bot template as the text \<^verbatim>\<open>None\<close>. No field is checked before the first write.
\<close>

definition WRITE_NONE :: exn where
  "WRITE_NONE = TypeError ''write() argument must be str, not None''"

definition JOIN_NONE :: exn where
  "JOIN_NONE = TypeError ''expected str, bytes or os.PathLike object, not NoneType''"

definition setup_pyrogram_bot :: "path \<Rightarrow> config \<Rightarrow> filesystem \<Rightarrow> filesystem outcome" where
  "setup_pyrogram_bot project_dir c f =
     (let bot_file = path_join project_dir ''bot.py''; f1 = open_w bot_file f in
      case map_of c ''bot_token'' of
        None \<Rightarrow> Raised (KeyError ''bot_token'') f1
      | Some bot_token \<Rightarrow>
          (case map_of c ''api_id'' of
             None \<Rightarrow> Raised (KeyError ''api_id'') f1
           | Some api_id \<Rightarrow>
               (case map_of c ''api_hash'' of
                  None \<Rightarrow> Raised (KeyError ''api_hash'') f1
                | Some api_hash \<Rightarrow>
                    Return (write_file (path_join project_dir ''requirements.txt'')
                              [Text ''pyrogram\<newline>'']
                              (write_file bot_file
                                 [PYROGRAM_BOT_TEMPLATE (py_str bot_token) (py_str api_id)
                                    (py_str api_hash)] f1)))))"

definition setup_static_site :: "path \<Rightarrow> config \<Rightarrow> filesystem \<Rightarrow> filesystem outcome" where
  "setup_static_site project_dir c f =
     (let index_file = path_join project_dir ''index.html''; f1 = open_w index_file f in
      case (case map_of c ''index_html'' of
              None \<Rightarrow> Some STATIC_SITE_TEMPLATE
            | Some None \<Rightarrow> None
            | Some (Some html) \<Rightarrow> Some (Text html)) of
        None \<Rightarrow> Raised WRITE_NONE f1
      | Some index_html \<Rightarrow>
          Return (write_file (path_join project_dir ''requirements.txt'') [Text ''flask\<newline>'']
                    (write_file (path_join project_dir ''app.py'') [STATIC_SITE_APP]
                       (write_file index_file [index_html] f1))))"

definition setup_main_file ::
  "chunk \<Rightarrow> string \<Rightarrow> path \<Rightarrow> config \<Rightarrow> filesystem \<Rightarrow> filesystem outcome" where
  "setup_main_file template_text default_requirements project_dir c f =
     (case config_get_default c ''main_file'' ''main.py'' of
        None \<Rightarrow> Raised JOIN_NONE f
      | Some main_name \<Rightarrow>
          (let f1 = write_file (path_join project_dir main_name) [template_text] f;
               requirements_file = path_join project_dir ''requirements.txt'';
               f2 = open_w requirements_file f1
           in case config_get_default c ''requirements'' default_requirements of
                None \<Rightarrow> Raised WRITE_NONE f2
              | Some requirements \<Rightarrow> Return (write_file requirements_file [Text requirements] f2)))"

definition setup_vps :: "path \<Rightarrow> config \<Rightarrow> filesystem \<Rightarrow> filesystem outcome" where
  "setup_vps project_dir c f =
     (let os_type = config_get_default c ''os'' ''ubuntu:22.04'';
          packages = config_get_default c ''packages'' ''''
      in Return (write_file (path_join project_dir ''startup.sh'') [VPS_STARTUP_SCRIPT]
                   (write_file (path_join project_dir ''Dockerfile'')
                      [VPS_DOCKERFILE (py_str os_type) (py_str packages)] f)))"

definition setup_project :: "env \<Rightarrow> project \<Rightarrow> config \<Rightarrow> filesystem \<Rightarrow> filesystem outcome" where
  "setup_project e p c f =
     (let project_dir = get_project_dir e p;
          logs_dir = path_join project_dir ''logs'';
          f1 = makedirs logs_dir f
      in if template p = ''pyrogram-bot'' then setup_pyrogram_bot project_dir c f1
         else if template p = ''static-site'' then setup_static_site project_dir c f1
         else if template p = ''web-service''
           then setup_main_file WEB_SERVICE_TEMPLATE ''flask\<newline>'' project_dir c f1
         else if template p = ''worker'' then setup_main_file WORKER_TEMPLATE '''' project_dir c f1
         else if template p = ''vps'' then setup_vps project_dir c f1
         else if template p = ''github-docker'' then Return f1
         else if template p = ''github-custom'' then Return f1
         else Return f1)"

subsection \<open>The creation form\<close>

text \<open>
  \<^verbatim>\<open>request.form\<close> is a dictionary of strings; \<^verbatim>\<open>request.form.get(k)\<close> is \<^verbatim>\<open>None\<close> for a
  field that was not posted, and that \<^verbatim>\<open>None\<close> is what the configuration then stores.
\<close>

type_synonym form = "(string \<times> string) list"

definition form_get :: "form \<Rightarrow> string \<Rightarrow> string option" where
  "form_get fm k = map_of fm k"

definition form_get_default :: "form \<Rightarrow> string \<Rightarrow> string \<Rightarrow> string option" where
  "form_get_default fm k d = (case map_of fm k of None \<Rightarrow> Some d | Some v \<Rightarrow> Some v)"

definition config_of_form :: "form \<Rightarrow> config" where
  "config_of_form fm =
     (let tmpl = form_get fm ''template''; github_repo = form_get fm ''github_repo'' in
      if tmpl = Some ''pyrogram-bot'' then
        [(''bot_token'', form_get fm ''bot_token''), (''api_id'', form_get fm ''api_id''),
         (''api_hash'', form_get fm ''api_hash'')]
      else if tmpl = Some ''static-site'' then [(''index_html'', form_get fm ''index_html'')]
      else if tmpl = Some ''web-service'' then
        [(''requirements'', form_get fm ''requirements''), (''main_file'', form_get fm ''main_file'')]
      else if tmpl = Some ''vps'' then
        [(''os'', form_get_default fm ''os'' ''ubuntu:22.04''),
         (''packages'', form_get_default fm ''packages'' '''')]
      else if tmpl = Some ''github-docker'' then [(''github_repo'', github_repo)]
      else if tmpl = Some ''github-custom'' then
        [(''github_repo'', github_repo),
         (''build_command'', form_get_default fm ''build_command'' ''''),
         (''start_command'', form_get fm ''start_command'')]
      else [])"

definition port_of_form :: "env \<Rightarrow> form \<Rightarrow> exn + int" where
  "port_of_form e fm =
     (case form_get fm ''port'' of
        None \<Rightarrow> Inr 8000
      | Some s \<Rightarrow>
          (case py_int e s of
             None \<Rightarrow> Inl (ValueError (''invalid literal for int() with base 10: '' @ s))
           | Some n \<Rightarrow> Inr n))"

definition over_project_limit :: "user \<Rightarrow> world \<Rightarrow> bool" where
  "over_project_limit current_user w =
     (let plan_limits = get_plan_limits current_user in
      max_projects plan_limits > 0 \<and>
      int (length (filter (\<lambda>p. user_id p = u_id current_user) (projects w)))
        \<ge> max_projects plan_limits)"

definition limit_message :: "user \<Rightarrow> string" where
  "limit_message current_user =
     ''Your '' @ plan current_user @ '' plan allows only ''
     @ str_int (max_projects (get_plan_limits current_user)) @ '' projects''"

text \<open>
  The POST branch of \<^verbatim>\<open>new_deployment\<close>. The only checks before the row is added are the
  project limit of the plan and the conversion of the port; the columns \<^verbatim>\<open>name\<close> and
  \<^verbatim>\<open>template\<close> are not nullable, so the commit of a row without them raises. Then the
  row is stored, the project directory is created and the template is materialised. The
  handler has no \<^verbatim>\<open>try\<close>: an exception is answered by the framework and what was done
  before it stays done.
\<close>

definition new_project :: "env \<Rightarrow> user \<Rightarrow> form \<Rightarrow> string \<Rightarrow> string \<Rightarrow> int \<Rightarrow> world \<Rightarrow> project" where
  "new_project e current_user fm nm tmpl prt w =
     \<lparr>p_id = fresh_id (map p_id (projects w)), name = nm,
      description = form_get fm ''description'', template = tmpl, status = ''stopped'',
      user_id = u_id current_user, updated_at = now e, port = prt,
      config = config_of_form fm, container_id = None, ngrok_tunnel_id = None,
      github_repo = form_get fm ''github_repo'', user = current_user\<rparr>"

definition save_ngrok_token :: "form \<Rightarrow> project \<Rightarrow> world \<Rightarrow> world" where
  "save_ngrok_token fm p w =
     (let ngrok_token = form_get fm ''ngrok_token'' in
      if truthy ngrok_token \<and> template p \<in> set TUNNEL_TEMPLATES
      then store (p\<lparr>config := AList.update ''ngrok_token'' ngrok_token (config p)\<rparr>) w
      else w)"

definition new_deployment :: "env \<Rightarrow> user \<Rightarrow> form \<Rightarrow> world \<Rightarrow> response \<times> world" where
  "new_deployment e current_user fm w =
     (if over_project_limit current_user w
      then (Render_template ''NEW_DEPLOYMENT_PAGE'' (Some (limit_message current_user)), w)
      else
        (case port_of_form e fm of
           Inl x \<Rightarrow> (Unhandled x, w)
         | Inr prt \<Rightarrow>
             (case (form_get fm ''name'', form_get fm ''template'') of
                (Some nm, Some tmpl) \<Rightarrow>
                  (let p = new_project e current_user fm nm tmpl prt w;
                       w1 = w\<lparr>projects := projects w @ [p]\<rparr>;
                       w2 = w1\<lparr>fs := makedirs (get_project_dir e p) (fs w1)\<rparr>
                   in case setup_project e p (config_of_form fm) (fs w2) of
                        Raised x f \<Rightarrow> (Unhandled x, w2\<lparr>fs := f\<rparr>)
                      | Return f \<Rightarrow> (Redirect ''dashboard'', save_ngrok_token fm p (w2\<lparr>fs := f\<rparr>)))
              | _ \<Rightarrow> (Unhandled (IntegrityError ''NOT NULL constraint failed''), w))))"

section \<open>Concrete inputs\<close>

text \<open>
  A statistics sample of a container with two CPUs that used 100 units of CPU time while
  the host accounted 400.
\<close>

definition stats0 :: json where
  "stats0 = JDict [
     (''cpu_stats'', JDict [
        (''cpu_usage'', JDict [(''total_usage'', JInt 300),
                               (''percpu_usage'', JList [JInt 200, JInt 100])]),
        (''system_cpu_usage'', JInt 1400)]),
     (''precpu_stats'', JDict [
        (''cpu_usage'', JDict [(''total_usage'', JInt 200)]),
        (''system_cpu_usage'', JInt 1000)])]"

text \<open>
  An environment with a container engine in which every outside call succeeds, except that
  no repository can be cloned and no probed port ever opens; a launched process gets the id
  4322, prints one line and exits with code 1.
\<close>

definition env0 :: env where
  "env0 = \<lparr>docker_available = True, PROJECTS_ROOT = ''/srv/users'',
           now = ''2024-05-01 10:00:00'', sys_executable = ''python3'',
           py_int = (\<lambda>s. if s = ''4321'' then Some 4321 else if s = ''8000'' then Some 8000 else None),
           git_clone = (\<lambda>repo dir. Inl (CalledProcessError ''git clone returned non-zero exit status 128''
                                                             ''fatal: repository not found'')),
           images_build = (\<lambda>dir tag. None),
           containers_create = (\<lambda>args. Inr ''c0ffee''),
           container_start = (\<lambda>cid. None),
           container_stop = (\<lambda>cid. None),
           container_remove = (\<lambda>cid. None),
           container_stats = (\<lambda>cid. Inr stats0),
           pip_install = (\<lambda>req dir. Inr ''''),
           run_command = (\<lambda>cmd dir. Inr ''''),
           popen = (\<lambda>cmd dir. Inr 4322),
           proc_readlines = (\<lambda>pid. [''Worker started'', '''']),
           proc_read_error = (\<lambda>pid. None),
           proc_wait = (\<lambda>pid. 1),
           os_kill_error = (\<lambda>pid. None),
           gone_after_term = (\<lambda>pid i. True),
           ngrok_connect = (\<lambda>prt. Inr ''https://one.ngrok.io''),
           ngrok_disconnect = (\<lambda>url. None),
           rmtree_error = (\<lambda>dir. None),
           connect_ex = (\<lambda>prt i. Inr 111),
           time_sleep = (\<lambda>s i. None)\<rparr>"

text \<open>The same environment without a container engine, and one whose engine cannot stop
  a container.\<close>

definition env_native :: env where
  "env_native = env0\<lparr>docker_available := False\<rparr>"

definition env_stuck :: env where
  "env_stuck = env0\<lparr>container_stop := (\<lambda>cid. Some (LibraryError ''read timed out''))\<rparr>"

definition user0 :: user where
  "user0 = \<lparr>u_id = 1, username = ''alice'', plan = ''premium''\<rparr>"

text \<open>A running web service of that user in the container \<^verbatim>\<open>c0ffee\<close>.\<close>

definition project0 :: project where
  "project0 = \<lparr>p_id = 1, name = ''site'', description = None, template = ''web-service'',
               status = ''running'', user_id = 1, updated_at = ''2024-04-30 09:00:00'',
               port = 8000,
               config = [(''requirements'', Some ''flask''), (''main_file'', Some ''main.py'')],
               container_id = Some ''c0ffee'', ngrok_tunnel_id = None, github_repo = None,
               user = user0\<rparr>"

definition world0 :: world where
  "world0 = \<lparr>projects = [project0], tunnels = [], fs = Map.empty,
             containers = [''c0ffee'' \<mapsto> Started], procs = {}, signals = [],
             ngrok_live = {}, threads = []\<rparr>"

text \<open>A stopped project of the same user built from a repository that does not exist.\<close>

definition project_gh :: project where
  "project_gh = \<lparr>p_id = 2, name = ''app'', description = None, template = ''github-custom'',
                 status = ''stopped'', user_id = 1, updated_at = ''2024-04-30 09:00:00'',
                 port = 8000,
                 config = [(''github_repo'', Some ''https://github.com/nobody/nothing''),
                           (''build_command'', Some ''''),
                           (''start_command'', Some ''python app.py'')],
                 container_id = None, ngrok_tunnel_id = None,
                 github_repo = Some ''https://github.com/nobody/nothing'', user = user0\<rparr>"

definition world_gh :: world where
  "world_gh = world0\<lparr>projects := [project0, project_gh]\<rparr>"

text \<open>
  A worker of the same user on the native backend, as a start request leaves it: the
  process 4321 that was launched is alive, its monitor has not reported yet, the status is
  still \<^verbatim>\<open>deploying\<close> and the handle was not written to the row.
\<close>

definition project_n :: project where
  "project_n = \<lparr>p_id = 3, name = ''job'', description = None, template = ''worker'',
                status = ''deploying'', user_id = 1, updated_at = ''2024-04-30 09:00:00'',
                port = 8000, config = [], container_id = None, ngrok_tunnel_id = None,
                github_repo = None, user = user0\<rparr>"

definition world_n :: world where
  "world_n = \<lparr>projects = [project_n], tunnels = [], fs = Map.empty, containers = Map.empty,
              procs = {4321}, signals = [], ngrok_live = {}, threads = []\<rparr>"

definition log_n :: path where
  "log_n = ''/srv/users/alice/projects/3/logs/app.log''"

text \<open>An environment in which every sleep of the readiness monitor is interrupted by an
  exception.\<close>

definition env_interrupted :: env where
  "env_interrupted = env0\<lparr>time_sleep := (\<lambda>s i. Some (LibraryError ''interrupted''))\<rparr>"

text \<open>
  The web service before its first start: stopped, no handle, no container. \<open>project_l\<close>
  is the row object that the launch hands to the readiness monitor, \<open>world_started\<close> the
  world after the start request and \<open>world_ready\<close> the world after the monitor has run.
\<close>

definition project_s :: project where
  "project_s = project0\<lparr>status := ''stopped'', container_id := None\<rparr>"

definition world_s :: world where
  "world_s = world0\<lparr>projects := [project_s], containers := Map.empty\<rparr>"

definition project_l :: project where
  "project_l = project_s\<lparr>status := ''deploying'', container_id := Some ''c0ffee''\<rparr>"

definition world_started :: world where
  "world_started = snd (start_project env0 user0 1 world_s)"










section \<open>Facts about rows and termination\<close>


lemma db_get_id: "db_get ps i = Some p \<Longrightarrow> p_id p = i"
  unfolding db_get_def by (induction ps) (auto split: if_splits)

lemma db_get_db_put_same:
  "db_get ps i = Some p \<Longrightarrow> p_id p' = i \<Longrightarrow> db_get (db_put p' ps) i = Some p'"
  unfolding db_get_def db_put_def by (induction ps) (auto split: if_splits)

lemma db_get_db_put_other:
  "p_id p' \<noteq> i \<Longrightarrow> db_get (db_put p' ps) i = db_get ps i"
  unfolding db_get_def db_put_def by (induction ps) (auto split: if_splits)


lemma owned_project_id: "owned_project w u i = Some p \<Longrightarrow> p_id p = i \<and> db_get (projects w) i = Some p \<and> user_id p = u_id u"
  unfolding owned_project_def by (auto split: option.splits if_splits dest: db_get_id)

lemma projects_store [simp]: "projects (store p w) = db_put p (projects w)"
  by (simp add: store_def)

lemma store_other [simp]:
  "tunnels (store p w) = tunnels w" "fs (store p w) = fs w" "containers (store p w) = containers w"
  "procs (store p w) = procs w" "signals (store p w) = signals w" "ngrok_live (store p w) = ngrok_live w"
  "threads (store p w) = threads w"
  by (simp_all add: store_def)

lemma projects_append_log [simp]: "projects (append_log l s w) = projects w"
  by (simp add: append_log_def)

lemma stop_docker_raised:
  "stop_docker_deployment e p w = Raised x (p1, w1) \<Longrightarrow> p1 = p \<and> projects w1 = projects w \<and> tunnels w1 = tunnels w"
  unfolding stop_docker_deployment_def
  by (auto split: option.splits simp: Let_def)

lemma stop_native_raised:
  "stop_native_deployment e p w = Raised x (p1, w1) \<Longrightarrow> p1 = p \<and> w1 = w"
  unfolding stop_native_deployment_def
  by (auto split: option.splits if_splits prod.splits simp: Let_def)

lemma terminate_raised:
  "terminate_backend e p w = Raised x (p1, w1) \<Longrightarrow> p1 = p \<and> projects w1 = projects w \<and> tunnels w1 = tunnels w"
  unfolding terminate_backend_def
  by (auto split: if_splits dest: stop_docker_raised stop_native_raised)

lemma stop_docker_return:
  "stop_docker_deployment e p w = Return (p1, w1) \<Longrightarrow>
     p1 = p\<lparr>container_id := None\<rparr> \<and> projects w1 = projects w \<and> tunnels w1 = tunnels w
     \<and> fs w1 = fs w \<and> ngrok_live w1 = ngrok_live w
     \<and> (\<forall>cid. container_id p = Some cid \<longrightarrow> containers w1 cid = None)"
  unfolding stop_docker_deployment_def
  by (auto split: option.splits simp: Let_def)

lemma stop_native_return:
  "stop_native_deployment e p w = Return (p1, w1) \<Longrightarrow>
     projects w1 = projects w \<and> tunnels w1 = tunnels w \<and> fs w1 = fs w \<and> ngrok_live w1 = ngrok_live w \<and>
     (if truthy (container_id p)
      then p1 = p\<lparr>container_id := None\<rparr> \<and>
           (\<exists>pid. py_int e (py_str (container_id p)) = Some pid \<and> pid \<notin> procs w1)
      else p1 = p \<and> w1 = w)"
  unfolding stop_native_deployment_def
  by (auto split: option.splits if_splits prod.splits simp: Let_def)

lemma terminate_return:
  assumes "terminate_backend e p w = Return (p1, w1)"
  shows "projects w1 = projects w \<and> tunnels w1 = tunnels w \<and> fs w1 = fs w
         \<and> ngrok_live w1 = ngrok_live w
         \<and> (if truthy (container_id p) then p1 = p\<lparr>container_id := None\<rparr> else p1 = p \<and> w1 = w)
         \<and> (\<forall>cid. container_id p = Some cid \<and> cid \<noteq> [] \<longrightarrow>
               (if docker_available e then containers w1 cid = None
                else (\<exists>pid. py_int e cid = Some pid \<and> pid \<notin> procs w1)))"
proof (cases "docker_available e \<and> truthy (container_id p)")
  case True
  with assms have "stop_docker_deployment e p w = Return (p1, w1)"
    by (simp add: terminate_backend_def)
  from stop_docker_return [OF this] True show ?thesis by auto
next
  case False
  with assms have "stop_native_deployment e p w = Return (p1, w1)"
    by (auto simp add: terminate_backend_def)
  from stop_native_return [OF this] False show ?thesis
    by (auto simp: truthy_def py_str_def split: if_splits option.splits)
qed

section \<open>Facts about launching\<close>


lemma projects_fs_update [simp]: "projects (w\<lparr>fs := f\<rparr>) = projects w"
  by simp

lemma docker_clone_projects: "projects (state_of (docker_clone e p w)) = projects w"
  unfolding docker_clone_def
  by (auto simp: Let_def split: sum.splits exn.splits prod.splits)

lemma docker_build_projects: "projects (state_of (docker_build e p w)) = projects w"
  using docker_clone_projects [of e p w]
  unfolding docker_build_def
  by (auto split: outcome.splits option.splits)

lemma start_docker_raised:
  "start_docker_deployment e p w = Raised x (p1, w1) \<Longrightarrow> p1 = p \<and> projects w1 = projects w"
  using docker_build_projects [of e p w]
  unfolding start_docker_deployment_def
  by (auto simp: Let_def split: outcome.splits sum.splits option.splits)

lemma start_docker_return:
  "start_docker_deployment e p w = Return (p1, w1) \<Longrightarrow>
     projects w1 = projects w \<and> (\<exists>cid. p1 = p\<lparr>container_id := Some cid\<rparr>)"
  using docker_build_projects [of e p w]
  unfolding start_docker_deployment_def
  by (auto simp: Let_def split: outcome.splits sum.splits option.splits)

lemma native_clone_projects: "projects (state_of (native_clone e p l w)) = projects w"
  unfolding native_clone_def
  by (auto simp: Let_def split: sum.splits exn.splits prod.splits)

lemma native_install_projects: "projects (state_of (native_install e p l w)) = projects w"
  unfolding native_install_def
  by (auto simp: Let_def split: sum.splits exn.splits prod.splits)

lemma native_build_projects: "projects (state_of (native_build e p l w)) = projects w"
  unfolding native_build_def
  by (auto simp: Let_def split: sum.splits exn.splits prod.splits)

lemma native_spawn_raised:
  "native_spawn e p l w = Raised x (p1, w1) \<Longrightarrow> p1 = p \<and> projects w1 = projects w"
  unfolding native_spawn_def
  by (auto simp: Let_def split: sum.splits)

lemma native_spawn_return:
  "native_spawn e p l w = Return (p1, w1) \<Longrightarrow>
     projects w1 = projects w \<and> (\<exists>h. p1 = p\<lparr>container_id := Some h\<rparr>)"
  unfolding native_spawn_def
  by (auto simp: Let_def split: sum.splits)

lemma native_prepare_projects: "projects (state_of (native_prepare e p l w)) = projects w"
proof (cases "native_clone e p l w")
  case (Raised x w1)
  with native_clone_projects [of e p l w] show ?thesis by (simp add: native_prepare_def)
next
  case c: (Return w1)
  with native_clone_projects [of e p l w] have 1: "projects w1 = projects w" by simp
  show ?thesis
  proof (cases "native_install e p l w1")
    case (Raised x w2)
    with native_install_projects [of e p l w1] c 1 show ?thesis by (simp add: native_prepare_def)
  next
    case (Return w2)
    with native_install_projects [of e p l w1] c 1 native_build_projects [of e p l w2]
    show ?thesis by (simp add: native_prepare_def)
  qed
qed

lemma start_native_raised:
  "start_native_deployment e p w = Raised x (p1, w1) \<Longrightarrow> p1 = p \<and> projects w1 = projects w"
  unfolding start_native_deployment_def Let_def
  by (auto split: outcome.splits dest!: native_spawn_raised
      dest: arg_cong [where f = "\<lambda>r. projects (state_of r)"] simp: native_prepare_projects)

lemma start_native_return:
  "start_native_deployment e p w = Return (p1, w1) \<Longrightarrow>
     projects w1 = projects w \<and> (\<exists>h. p1 = p\<lparr>container_id := Some h\<rparr>)"
  unfolding start_native_deployment_def Let_def
  by (auto split: outcome.splits dest!: native_spawn_return
      dest: arg_cong [where f = "\<lambda>r. projects (state_of r)"] simp: native_prepare_projects)

lemma launch_raised:
  "launch e p w = Raised x (p1, w1) \<Longrightarrow> p1 = p \<and> projects w1 = projects w"
  unfolding launch_def by (auto split: if_splits dest: start_docker_raised start_native_raised)

lemma launch_return:
  "launch e p w = Return (p1, w1) \<Longrightarrow>
     projects w1 = projects w \<and> (\<exists>h. p1 = p\<lparr>container_id := Some h\<rparr>)"
  unfolding launch_def by (auto split: if_splits dest: start_docker_return start_native_return)

section \<open>Facts about files and failing launches\<close>


lemma path_exists_makedirs: "path_exists f q \<Longrightarrow> path_exists (makedirs d f) q"
  by (auto simp: path_exists_def makedirs_def)

lemma path_exists_write_file: "path_exists f q \<Longrightarrow> path_exists (write_file p cs f) q"
  by (auto simp: path_exists_def write_file_def)

lemma path_exists_open_w: "path_exists f q \<Longrightarrow> path_exists (open_w p f) q"
  by (auto simp: path_exists_def open_w_def)

lemma path_exists_append_file: "path_exists f q \<Longrightarrow> path_exists (append_file p c f) q"
  by (auto simp: path_exists_def append_file_def split: option.splits node.splits)

lemma path_exists_map_add: "path_exists f q \<Longrightarrow> path_exists (f ++ m) q"
  by (auto simp: path_exists_def map_add_def split: option.splits)

lemma path_exists_append_log: "path_exists (fs w) q \<Longrightarrow> path_exists (fs (append_log l s w)) q"
  by (simp add: append_log_def path_exists_append_file)

lemma native_clone_keeps_files:
  "path_exists (fs w) q \<Longrightarrow> path_exists (fs (state_of (native_clone e p l w))) q"
  unfolding native_clone_def
  by (auto simp: Let_def path_exists_append_log path_exists_map_add
      split: sum.splits exn.splits prod.splits)

text \<open>Each of the failures named by the claim makes the launch raise.\<close>

lemma docker_clone_failure_raises:
  assumes "template p \<in> set GITHUB_TEMPLATES" and "truthy (config_get (config p) ''github_repo'')"
      and "git_clone e (py_str (config_get (config p) ''github_repo'')) (get_project_dir e p) = Inl x"
  shows "raised (start_docker_deployment e p w) \<noteq> None"
  using assms unfolding start_docker_deployment_def docker_build_def docker_clone_def
  by (auto simp: Let_def split: exn.splits)

lemma image_build_failure_raises:
  assumes "images_build e (get_project_dir e p) (image_tag_of p) = Some x"
  shows "raised (start_docker_deployment e p w) \<noteq> None"
  using assms unfolding start_docker_deployment_def docker_build_def
  by (auto split: outcome.splits)

lemma container_spawn_failure_raises:
  assumes "containers_create e (create_args_of e p) = Inl x \<or>
           (\<exists>cid. containers_create e (create_args_of e p) = Inr cid \<and> container_start e cid = Some x)"
  shows "raised (start_docker_deployment e p w) \<noteq> None"
  using assms unfolding start_docker_deployment_def
  by (auto simp: Let_def split: outcome.splits)

lemma native_clone_failure_raises:
  assumes "template p \<in> set GITHUB_TEMPLATES" and "truthy (config_get (config p) ''github_repo'')"
      and "git_clone e (py_str (config_get (config p) ''github_repo'')) (get_project_dir e p) = Inl x"
  shows "raised (start_native_deployment e p w) \<noteq> None"
  using assms unfolding start_native_deployment_def native_prepare_def native_clone_def
  by (auto simp: Let_def split: exn.splits)

lemma native_install_failure_raises:
  assumes "path_exists (fs w) (path_join (get_project_dir e p) ''requirements.txt'')"
      and "pip_install e (path_join (get_project_dir e p) ''requirements.txt'') (get_project_dir e p) = Inl x"
  shows "raised (start_native_deployment e p w) \<noteq> None"
proof -
  let ?l = "path_join (path_join (get_project_dir e p) ''logs'') ''app.log''"
  let ?w0 = "w\<lparr>fs := write_file ?l [Text (''Starting deployment at '' @ now e @ ''\<newline>'')]
                            (makedirs (path_join (get_project_dir e p) ''logs'') (fs w))\<rparr>"
  have 0: "path_exists (fs ?w0) (path_join (get_project_dir e p) ''requirements.txt'')"
    using assms(1) by (simp add: path_exists_write_file path_exists_makedirs)
  have 1: "raised (native_prepare e p ?l ?w0) \<noteq> None"
  proof (cases "native_clone e p ?l ?w0")
    case (Raised y w1)
    then show ?thesis by (simp add: native_prepare_def)
  next
    case (Return w1)
    with native_clone_keeps_files [OF 0, of e p ?l]
    have "path_exists (fs w1) (path_join (get_project_dir e p) ''requirements.txt'')" by simp
    then have "raised (native_install e p ?l w1) \<noteq> None"
      using assms(2) unfolding native_install_def by (auto simp: Let_def split: exn.splits)
    then show ?thesis using Return
      by (cases "native_install e p ?l w1") (auto simp: native_prepare_def)
  qed
  then show ?thesis
    unfolding start_native_deployment_def Let_def
    by (cases "native_prepare e p ?l ?w0") auto
qed

lemma native_spawn_failure_raises:
  assumes "\<And>cmd. launch_command e p = Inr cmd \<Longrightarrow> popen e cmd (get_project_dir e p) = Inl x"
  shows "raised (start_native_deployment e p w) \<noteq> None"
proof -
  have "raised (native_spawn e p l w') \<noteq> None" for l w'
  proof (cases "launch_command e p")
    case (Inl y)
    then show ?thesis by (simp add: native_spawn_def)
  next
    case (Inr cmd)
    with assms [OF Inr] show ?thesis by (simp add: native_spawn_def Let_def)
  qed
  then show ?thesis
    unfolding start_native_deployment_def Let_def
    by (auto split: outcome.splits)
qed

section \<open>Facts about the native monitor\<close>

lemma projects_drain_output [simp]: "projects (drain_output e pid l w) = projects w"
proof -
  have "projects (fold (\<lambda>line. append_log l line) ls w) = projects w" for ls
    by (induction ls arbitrary: w) simp_all
  then show ?thesis by (simp add: drain_output_def)
qed



section \<open>Facts about the native launch\<close>

lemma native_prepare_plain:
  assumes "template p \<notin> set GITHUB_TEMPLATES"
      and "\<not> path_exists (fs w) (path_join (get_project_dir e p) ''requirements.txt'')"
  shows "native_prepare e p l w = Return w"
  using assms
  by (auto simp: native_prepare_def native_clone_def native_install_def native_build_def
      GITHUB_TEMPLATES_def Let_def)

lemma native_spawn_ok:
  assumes "launch_command e p = Inr cmd" and "popen e cmd (get_project_dir e p) = Inr pid"
  shows "native_spawn e p l w =
           Return (p\<lparr>container_id := Some (str_int pid)\<rparr>,
                   (append_log l (''Starting application with command: '' @ join_space cmd @ ''\<newline>'') w)
                     \<lparr>procs := insert pid (procs w),
                      threads := threads w @ [Monitor_native_process pid (p\<lparr>container_id := Some (str_int pid)\<rparr>) l]\<rparr>)"
  using assms by (simp add: native_spawn_def Let_def append_log_def)

lemma dir_n: "get_project_dir env_native project_n = ''/srv/users/alice/projects/3''"
  by (simp add: get_project_dir_def os_path_join_def path_join_def env_native_def env0_def
      project_n_def user0_def digit_char_def)

lemma anc_n: "ancestors ''/srv/users/alice/projects/3/logs'' = [''/srv'', ''/srv/users'', ''/srv/users/alice'', ''/srv/users/alice/projects'', ''/srv/users/alice/projects/3'']"
  by (simp add: ancestors_def upt_rec_numeral)

lemma req_n:
  "\<not> path_exists (write_file ''/srv/users/alice/projects/3/logs/app.log'' cs
                     (makedirs ''/srv/users/alice/projects/3/logs'' Map.empty))
        ''/srv/users/alice/projects/3/requirements.txt''"
  by (simp add: path_exists_def write_file_def makedirs_def anc_n)

lemma cmd_n: "launch_command env_native project_n = Inr [''python3'', ''main.py'']"
  by (simp add: launch_command_def main_file_command_def config_get_default_def
      project_n_def env_native_def env0_def)

lemma popen_n: "popen env_native cmd dir = Inr 4322"
  by (simp add: env_native_def env0_def)

lemma logs_n: "path_join ''/srv/users/alice/projects/3'' ''logs'' = ''/srv/users/alice/projects/3/logs''"
  by (simp add: path_join_def)

lemma logfile_n: "path_join ''/srv/users/alice/projects/3/logs'' ''app.log'' = log_n"
  by (simp add: path_join_def log_n_def)

lemma reqfile_n: "path_join ''/srv/users/alice/projects/3'' ''requirements.txt''
                  = ''/srv/users/alice/projects/3/requirements.txt''"
  by (simp add: path_join_def)

lemma project_n_deploying: "project_n\<lparr>status := ''deploying''\<rparr> = project_n"
  by (simp add: project_n_def)

lemma start_native_n:
  assumes "fs w = Map.empty"
  shows "\<exists>w'. start_native_deployment env_native project_n w
              = Return (project_n\<lparr>container_id := Some ''4322''\<rparr>, w') \<and>
             procs w' = insert 4322 (procs w) \<and> projects w' = projects w"
proof -
  let ?w0 = "w\<lparr>fs := write_file log_n [Text (''Starting deployment at '' @ now env_native @ ''\<newline>'')]
                       (makedirs ''/srv/users/alice/projects/3/logs'' Map.empty)\<rparr>"
  have t: "template project_n \<notin> set GITHUB_TEMPLATES"
    by (simp add: project_n_def GITHUB_TEMPLATES_def)
  have r: "\<not> path_exists (fs ?w0) (path_join (get_project_dir env_native project_n) ''requirements.txt'')"
    using req_n by (simp add: dir_n reqfile_n log_n_def)
  have s: "str_int 4322 = ''4322''" by (simp add: str_int_def digit_char_def)
  have "start_native_deployment env_native project_n w = native_spawn env_native project_n log_n ?w0"
    using native_prepare_plain [OF t r, of log_n] assms
    by (simp add: start_native_deployment_def Let_def dir_n logs_n logfile_n)
  then show ?thesis
    using native_spawn_ok [OF cmd_n popen_n, of log_n ?w0] s by (simp add: append_log_def)
qed

lemma start_on_running_is_refused:
  assumes "owned_project w u i = Some p" and "status p = ''running''"
  shows "start_project e u i w = (Jsonify False ''Project is already running'' 400, w)"
  using assms by (simp add: start_project_def)

lemma start_proceeds_unless_running:
  assumes "owned_project w u i = Some p" and "status p \<noteq> ''running''"
  shows "\<exists>m c. fst (start_project e u i w) = Jsonify True ''Project is starting'' 200 \<or>
               fst (start_project e u i w) = Jsonify False m 500"
  using assms
  by (cases "launch e (p\<lparr>status := ''deploying''\<rparr>) (store (p\<lparr>status := ''deploying''\<rparr>) w)")
     (auto simp: start_project_def Let_def)

section \<open>Facts about the readiness monitor\<close>

lemma wait_for_port_sleeps_ok:
  "(\<And>j. i \<le> j \<Longrightarrow> j < i + n \<Longrightarrow> time_sleep e 1 j = None) \<Longrightarrow> wait_for_port e prt i n = None"
proof (induction n arbitrary: i)
  case 0
  show ?case by simp
next
  case (Suc n)
  have "time_sleep e 1 i = None" using Suc.prems [of i] by simp
  moreover have "wait_for_port e prt (Suc i) n = None"
    by (rule Suc.IH) (use Suc.prems in auto)
  ultimately show ?case by simp
qed

lemma wait_for_port_raised_by_sleep:
  "wait_for_port e prt i n = Some x \<Longrightarrow> \<exists>j. i \<le> j \<and> j < i + n \<and> time_sleep e 1 j = Some x"
proof (induction n arbitrary: i)
  case 0
  then show ?case by simp
next
  case (Suc n)
  show ?case
  proof (cases "time_sleep e 1 i")
    case None
    with Suc.prems have "wait_for_port e prt (Suc i) n = Some x" by (auto split: if_splits)
    from Suc.IH [OF this] show ?thesis by (metis Suc_leD add_Suc_shift)
  next
    case (Some y)
    with Suc.prems have "y = x" by (auto split: if_splits)
    with Some show ?thesis by auto
  qed
qed

lemma start_ngrok_keeps_status:
  assumes "db_get (projects w) (p_id q) = Some q0"
  shows "\<exists>q'. db_get (projects (state_of (start_ngrok_for_project e q tok w))) (p_id q) = Some q' \<and>
              (status q' = status q \<or> q' = q0)"
  using assms unfolding start_ngrok_for_project_def
  by (auto simp: Let_def db_get_db_put_same split: option.splits sum.splits)

lemma wait_for_port_first_sleep_raises:
  "0 < n \<Longrightarrow> connect_ex e prt i \<noteq> Inr 0 \<Longrightarrow> time_sleep e 1 i = Some x
     \<Longrightarrow> wait_for_port e prt i n = Some x"
  by (cases n) auto

lemma wait_until_ready_raised_by_sleep:
  "wait_until_ready e p = Some x \<Longrightarrow> \<exists>s j. time_sleep e s j = Some x"
  unfolding wait_until_ready_def
  by (auto split: if_splits dest!: wait_for_port_raised_by_sleep)

lemma wait_for_port_reachable:
  "connect_ex e prt k = Inr 0 \<Longrightarrow> (\<And>j. i \<le> j \<Longrightarrow> j < k \<Longrightarrow> time_sleep e 1 j = None)
     \<Longrightarrow> i \<le> k \<Longrightarrow> k < i + n \<Longrightarrow> wait_for_port e prt i n = None"
proof (induction n arbitrary: i)
  case 0
  show ?case by simp
next
  case (Suc n)
  show ?case
  proof (cases "i = k")
    case True
    with Suc.prems show ?thesis by simp
  next
    case False
    with Suc.prems have "time_sleep e 1 i = None" by simp
    moreover have "wait_for_port e prt (Suc i) n = None"
      by (rule Suc.IH) (use Suc.prems False in auto)
    ultimately show ?thesis by simp
  qed
qed


section \<open>Facts about starting and stopping\<close>


lemma start_leaves_handle_unwritten:
  assumes "owned_project w u i = Some p" and "status p \<noteq> ''running''"
      and "fst (start_project e u i w) = Jsonify True m c"
  shows "owned_project (snd (start_project e u i w)) u i = Some (p\<lparr>status := ''deploying''\<rparr>)"
proof -
  let ?p1 = "p\<lparr>status := ''deploying''\<rparr>"
  from assms(1) have g: "db_get (projects w) i = Some p" "p_id p = i" "user_id p = u_id u"
    by (simp_all add: owned_project_id)
  obtain p2 w2 where r: "launch e ?p1 (store ?p1 w) = Return (p2, w2)"
    using assms by (cases "launch e ?p1 (store ?p1 w)") (auto simp: start_project_def Let_def)
  from launch_return [OF r] have eq: "projects w2 = db_put ?p1 (projects w)" by simp
  have s: "snd (start_project e u i w) = w2"
    using assms(1,2) r by (simp add: start_project_def Let_def)
  show ?thesis unfolding s using g eq by (simp add: owned_project_def db_get_db_put_same)
qed

lemma own_s: "owned_project world_s user0 1 = Some project_s"
  by (simp add: owned_project_def db_get_def world_s_def world0_def project_s_def project0_def user0_def)

lemma launch_s:
  "launch env0 (project_s\<lparr>status := ''deploying''\<rparr>) w =
     Return (project_l, w\<lparr>containers := (containers w)(''c0ffee'' \<mapsto> Started),
                          threads := threads w @ [Monitor_container_health project_l ''c0ffee'']\<rparr>)"
  by (simp add: launch_def start_docker_deployment_def docker_build_def docker_clone_def
      GITHUB_TEMPLATES_def env0_def Let_def project_l_def project_s_def project0_def)

lemma started:
  "fst (start_project env0 user0 1 world_s) = Jsonify True ''Project is starting'' 200"
  "world_started = (store (project_s\<lparr>status := ''deploying''\<rparr>) world_s)
       \<lparr>containers := [''c0ffee'' \<mapsto> Started],
        threads := [Monitor_container_health project_l ''c0ffee'']\<rparr>"
  using own_s
  by (simp_all add: world_started_def start_project_def launch_s Let_def)
     (simp_all add: project_s_def world_s_def world0_def store_def)



lemma own_started:
  "db_get (projects world_started) (p_id project_l) = Some (project_s\<lparr>status := ''deploying''\<rparr>)"
  by (simp add: started(2) db_get_def db_put_def world_s_def project_l_def project_s_def
      project0_def)




lemma stop_success_clears_row:
  assumes "owned_project w u i = Some p" and "status p = ''running''"
      and "fst (stop_project e u i w) = Jsonify True m c"
  shows "\<exists>q. owned_project (snd (stop_project e u i w)) u i = Some q \<and>
             status q = ''stopped'' \<and> \<not> truthy (container_id q) \<and>
             (container_id p \<noteq> Some [] \<longrightarrow> container_id q = None) \<and>
             (\<forall>cid. container_id p = Some cid \<and> cid \<noteq> [] \<longrightarrow>
                (if docker_available e then containers (snd (stop_project e u i w)) cid = None
                 else (\<exists>pid. py_int e cid = Some pid \<and> pid \<notin> procs (snd (stop_project e u i w))))) \<and>
             (\<forall>e'. project_stats e' u i (snd (stop_project e u i w))
                     = Jsonify False ''Project is not running'' 400)"
proof -
  from assms(1) have g: "db_get (projects w) i = Some p" "p_id p = i" "user_id p = u_id u"
    by (simp_all add: owned_project_id)
  obtain p1 w1 where r: "terminate_backend e p w = Return (p1, w1)"
    using assms by (cases "terminate_backend e p w") (auto simp: stop_project_def)
  note t = terminate_return [OF r]
  define q where "q = p1\<lparr>status := ''stopped'', updated_at := now e\<rparr>"
  have s: "snd (stop_project e u i w) = store q w1"
    using assms(1,2) r by (simp add: stop_project_def q_def)
  have ids: "p_id q = i" "user_id q = u_id u"
    using t g by (auto simp: q_def split: if_splits)
  have own: "owned_project (store q w1) u i = Some q"
    using g t ids by (simp add: owned_project_def db_get_db_put_same)
  have st: "status q = ''stopped''" by (simp add: q_def)
  have h1: "\<not> truthy (container_id q)"
    using t by (auto simp: q_def truthy_def split: if_splits)
  have h2: "container_id p \<noteq> Some [] \<longrightarrow> container_id q = None"
    using t by (auto simp: q_def truthy_def split: if_splits option.splits)
  have h3: "\<forall>cid. container_id p = Some cid \<and> cid \<noteq> [] \<longrightarrow>
                (if docker_available e then containers (store q w1) cid = None
                 else (\<exists>pid. py_int e cid = Some pid \<and> pid \<notin> procs (store q w1)))"
    using t by simp
  have h4: "\<forall>e'. project_stats e' u i (store q w1) = Jsonify False ''Project is not running'' 400"
    using own st by (simp add: project_stats_def)
  show ?thesis unfolding s using own st h1 h2 h3 h4 by blast
qed

section \<open>Facts about deleting\<close>




lemma get_project_dir_handle [simp]:
  "get_project_dir e (p\<lparr>container_id := h\<rparr>) = get_project_dir e p"
  by (simp add: get_project_dir_def)

lemma ngrok_tunnel_of_cong:
  "tunnels w1 = tunnels w \<Longrightarrow> p_id p1 = p_id p \<Longrightarrow> ngrok_tunnel_of w1 p1 = ngrok_tunnel_of w p"
  by (simp add: ngrok_tunnel_of_def)











section \<open>The CPU percentage is safe\<close>










section \<open>Termination is idempotent\<close>

text \<open>
  Claim C9. Terminating a backend that has already been stopped does not raise. The native
  \<^verbatim>\<open>stop_native_deployment\<close> returns at once, changing nothing, when the handle is null, and
  so does the dispatch of the handlers, which sends a null handle to the native path
  whether or not a container engine is available. Hence, after any termination that
  returned, a second termination returns as well and changes neither the project nor the
  world.
\<close>

theorem terminate_twice_no_raise:
  "(container_id p = None \<longrightarrow>
      stop_native_deployment e p w = Return (p, w) \<and> terminate_backend e p w = Return (p, w)) \<and>
   (\<forall>p1 w1. terminate_backend e p w = Return (p1, w1) \<longrightarrow>
      (\<forall>e'. terminate_backend e' p1 w1 = Return (p1, w1)))"
proof (intro conjI impI allI)
  assume "container_id p = None"
  then show "stop_native_deployment e p w = Return (p, w)"
    by (simp add: stop_native_deployment_def truthy_def)
next
  assume "container_id p = None"
  then show "terminate_backend e p w = Return (p, w)"
    by (simp add: terminate_backend_def stop_native_deployment_def truthy_def)
next
  fix p1 w1 e'
  assume ok: "terminate_backend e p w = Return (p1, w1)"
  have "\<not> truthy (container_id p1)"
  proof (cases "docker_available e \<and> truthy (container_id p)")
    case True
    with ok have "stop_docker_deployment e p w = Return (p1, w1)"
      by (simp add: terminate_backend_def)
    then have "p1 = p\<lparr>container_id := None\<rparr>" by (simp add: stop_docker_return)
    then show ?thesis by (simp add: truthy_def)
  next
    case False
    with ok have "stop_native_deployment e p w = Return (p1, w1)"
      by (auto simp add: terminate_backend_def)
    from stop_native_return [OF this] show ?thesis
      by (auto simp: truthy_def split: if_splits)
  qed
  then show "terminate_backend e' p1 w1 = Return (p1, w1)"
    by (simp add: terminate_backend_def stop_native_deployment_def)
qed

theorem terminate_twice_no_raise_witness:
  "terminate_backend env0 project0 world0
     = Return (project0\<lparr>container_id := None\<rparr>, world0\<lparr>containers := Map.empty\<rparr>) \<and>
   terminate_backend env_native (project0\<lparr>container_id := None\<rparr>) (world0\<lparr>containers := Map.empty\<rparr>)
     = Return (project0\<lparr>container_id := None\<rparr>, world0\<lparr>containers := Map.empty\<rparr>)"
proof -
  have h: "terminate_backend env0 project0 world0
     = Return (project0\<lparr>container_id := None\<rparr>, world0\<lparr>containers := Map.empty\<rparr>)"
    by (simp add: terminate_backend_def stop_docker_deployment_def env0_def project0_def
        world0_def truthy_def)
  from terminate_twice_no_raise [of project0 env0 world0] h show ?thesis by blast
qed

text \<open>
  The container path is never entered with a null handle; called directly with one, it
  would raise.
\<close>

lemma stop_docker_null_handle_raises:
  "container_id p = None \<Longrightarrow> raised (stop_docker_deployment e p w) \<noteq> None"
  by (simp add: stop_docker_deployment_def)

section \<open>A failed termination is reported and changes no status\<close>

text \<open>
  Claim C7. When the termination of the backend raises during \<^verbatim>\<open>stop_project\<close>, the
  handler answers with the message of the exception and the code 500, and the row of the
  project is left exactly as it was: the status is still \<^verbatim>\<open>running\<close> and the handle is
  still set, so the stop can be tried again.
\<close>

theorem stop_failure_is_surfaced:
  assumes "owned_project w u i = Some p" and "status p = ''running''"
      and "raised (terminate_backend e p w) = Some x"
  shows "fst (stop_project e u i w) = Jsonify False (str_exn x) 500 \<and>
         owned_project (snd (stop_project e u i w)) u i = Some p"
proof -
  from assms(3) obtain p1 w1 where r: "terminate_backend e p w = Raised x (p1, w1)"
    by (cases "terminate_backend e p w") auto
  from terminate_raised [OF r] have eq: "p1 = p" "projects w1 = projects w" by simp_all
  from assms(1) have g: "db_get (projects w) i = Some p" "p_id p = i" "user_id p = u_id u"
    by (simp_all add: owned_project_id)
  have s: "stop_project e u i w = (Jsonify False (str_exn x) 500, w1)"
    using assms(1,2) r by (simp add: stop_project_def)
  have "owned_project w1 u i = Some p"
    using g eq by (simp add: owned_project_def)
  with s show ?thesis by simp
qed

theorem stop_failure_is_surfaced_witness:
  "owned_project world0 user0 1 = Some project0 \<and> status project0 = ''running'' \<and>
   raised (terminate_backend env_stuck project0 world0)
     = Some (Exception ''Failed to stop Docker container: read timed out'') \<and>
   fst (stop_project env_stuck user0 1 world0)
     = Jsonify False ''Failed to stop Docker container: read timed out'' 500 \<and>
   owned_project (snd (stop_project env_stuck user0 1 world0)) user0 1 = Some project0"
proof -
  have a: "owned_project world0 user0 1 = Some project0"
    by (simp add: owned_project_def db_get_def world0_def project0_def user0_def)
  have b: "status project0 = ''running''" by (simp add: project0_def)
  have c: "raised (terminate_backend env_stuck project0 world0)
     = Some (Exception ''Failed to stop Docker container: read timed out'')"
    by (simp add: terminate_backend_def stop_docker_deployment_def env_stuck_def env0_def
        project0_def world0_def truthy_def docker_stop_failed_def)
  from stop_failure_is_surfaced [OF a b c] a b c show ?thesis by simp
qed

section \<open>Stopping a running project\<close>


section \<open>A failed launch forces the status to error\<close>

text \<open>
  Claim C4. When \<^verbatim>\<open>start_project\<close> on a project that is not running answers with a
  failure, the launch raised before a backend was spawned (a failed clone, image build,
  dependency installation, build command or spawn, by the lemmas above), the answer carries
  the message of that exception and the code 500, the status of the project is \<^verbatim>\<open>error\<close>
  and the handle is what it was before the attempt: no container id or process id of the
  failed attempt is stored, and a handle that was null is still null.
\<close>

theorem launch_failure_forces_error:
  assumes "owned_project w u i = Some p" and "status p \<noteq> ''running''"
      and "fst (start_project e u i w) = Jsonify False m c"
  shows "owned_project (snd (start_project e u i w)) u i
           = Some (p\<lparr>status := ''error'', updated_at := now e\<rparr>) \<and>
         (\<exists>q. owned_project (snd (start_project e u i w)) u i = Some q \<and>
              status q = ''error'' \<and> container_id q = container_id p \<and>
              (container_id p = None \<longrightarrow> container_id q = None)) \<and>
         (\<exists>x. raised (launch e (p\<lparr>status := ''deploying''\<rparr>) (store (p\<lparr>status := ''deploying''\<rparr>) w))
                 = Some x \<and> m = str_exn x \<and> c = 500)"
proof -
  let ?p1 = "p\<lparr>status := ''deploying''\<rparr>"
  from assms(1) have g: "db_get (projects w) i = Some p" "p_id p = i" "user_id p = u_id u"
    by (simp_all add: owned_project_id)
  obtain x p2 w2 where r: "launch e ?p1 (store ?p1 w) = Raised x (p2, w2)"
    using assms by (cases "launch e ?p1 (store ?p1 w)") (auto simp: start_project_def Let_def)
  from launch_raised [OF r] have eq: "p2 = ?p1" "projects w2 = db_put ?p1 (projects w)" by simp_all
  let ?q = "p\<lparr>status := ''error'', updated_at := now e\<rparr>"
  have s: "start_project e u i w = (Jsonify False (str_exn x) 500, store ?q w2)"
    using assms(1,2) r eq by (simp add: start_project_def Let_def)
  have "db_get (projects w2) i = Some ?p1"
    using g eq by (simp add: db_get_db_put_same)
  then have own: "owned_project (store ?q w2) u i = Some ?q"
    using g by (simp add: owned_project_def db_get_db_put_same)
  show ?thesis using s own r assms(3) by auto
qed

theorem launch_failure_forces_error_witness:
  "owned_project world_gh user0 2 = Some project_gh \<and> status project_gh \<noteq> ''running'' \<and>
   fst (start_project env0 user0 2 world_gh)
     = Jsonify False (''Failed to build Docker image: Failed to clone GitHub repository: ''
                      @ ''git clone returned non-zero exit status 128'') 500 \<and>
   (\<exists>q. owned_project (snd (start_project env0 user0 2 world_gh)) user0 2 = Some q \<and>
        status q = ''error'' \<and> container_id q = None)"
proof -
  have a: "owned_project world_gh user0 2 = Some project_gh"
    by (simp add: owned_project_def db_get_def world_gh_def world0_def project0_def project_gh_def
        user0_def)
  have b: "status project_gh \<noteq> ''running''" by (simp add: project_gh_def)
  have l: "launch env0 (project_gh\<lparr>status := ''deploying''\<rparr>)
             (store (project_gh\<lparr>status := ''deploying''\<rparr>) world_gh)
           = Raised (Exception (''Failed to build Docker image: Failed to clone GitHub repository: ''
                      @ ''git clone returned non-zero exit status 128''))
               (project_gh\<lparr>status := ''deploying''\<rparr>, store (project_gh\<lparr>status := ''deploying''\<rparr>) world_gh)"
    by (simp add: launch_def start_docker_deployment_def docker_build_def docker_clone_def
        GITHUB_TEMPLATES_def config_get_def truthy_def py_str_def env0_def project_gh_def Let_def)
  have c: "fst (start_project env0 user0 2 world_gh)
     = Jsonify False (''Failed to build Docker image: Failed to clone GitHub repository: ''
                      @ ''git clone returned non-zero exit status 128'') 500"
    using a b l by (simp add: start_project_def Let_def)
  have d: "container_id project_gh = None" by (simp add: project_gh_def)
  from launch_failure_forces_error [OF a b c] a b c d show ?thesis by auto
qed

section \<open>Starting a project that is being deployed\<close>

text \<open>
  Claim C1 says that a start request is refused while the status is \<^verbatim>\<open>running\<close> or
  \<^verbatim>\<open>deploying\<close>. The handler refuses \<^verbatim>\<open>running\<close> only
  (\<open>start_on_running_is_refused\<close>); for every other status it goes on
  (\<open>start_proceeds_unless_running\<close>). On the native worker whose process 4321 is still
  being deployed, a second start request is answered with success and launches a second
  process 4322 beside the first; the row is left as it was, with the status
  \<^verbatim>\<open>deploying\<close>.
\<close>

theorem start_on_deploying_launches_again:
  "owned_project world_n user0 3 = Some project_n \<and> status project_n = ''deploying'' \<and>
   procs world_n = {4321} \<and>
   fst (start_project env_native user0 3 world_n) = Jsonify True ''Project is starting'' 200 \<and>
   procs (snd (start_project env_native user0 3 world_n)) = {4322, 4321} \<and>
   owned_project (snd (start_project env_native user0 3 world_n)) user0 3 = Some project_n"
proof -
  have a: "owned_project world_n user0 3 = Some project_n"
    by (simp add: owned_project_def db_get_def world_n_def project_n_def user0_def)
  have b: "status project_n = ''deploying''" "status project_n \<noteq> ''running''"
    by (simp_all add: project_n_def)
  have c: "procs world_n = {4321}" "fs (store project_n world_n) = Map.empty"
          "procs (store project_n world_n) = {4321}"
          "db_put project_n (projects world_n) = projects world_n"
    by (simp_all add: world_n_def db_put_def)
  have d: "docker_available env_native = False" by (simp add: env_native_def env0_def)
  from start_native_n [OF c(2)] obtain w' where
    w': "start_native_deployment env_native project_n (store project_n world_n)
           = Return (project_n\<lparr>container_id := Some ''4322''\<rparr>, w')"
        "procs w' = {4322, 4321}" "projects w' = projects world_n"
    using c by auto
  have s: "start_project env_native user0 3 world_n = (Jsonify True ''Project is starting'' 200, w')"
    using a b w' d by (simp add: start_project_def Let_def launch_def project_n_deploying)
  have o: "owned_project w' user0 3 = Some project_n"
    using w'(3) a by (simp add: owned_project_def)
  show ?thesis using a b c s o w' by simp
qed

section \<open>The exit of a native process\<close>




section \<open>The readiness monitor\<close>

text \<open>
  Claim C2. For a container deployment whose row exists, when the wait of
  \<^verbatim>\<open>monitor_container_health\<close> ends without an exception, the status of the row is set to
  \<^verbatim>\<open>running\<close> and, when the configuration holds an ngrok token and the template is one of
  the network-facing ones, \<^verbatim>\<open>start_ngrok_for_project\<close> is called on the updated row; when
  the wait raises, the status is set to \<^verbatim>\<open>error\<close> instead. The wait of a network-facing
  or VPS template ends without an exception as soon as a probe finds the port open, and
  also when all 30 attempts are used up, provided that no sleep raises; an exception of the
  wait is always one that a sleep raised, so running out of attempts never leads to
  \<^verbatim>\<open>error\<close>.
\<close>

theorem readiness_monitor_outcome:
  assumes "db_get (projects w) (p_id p) = Some q"
  shows "(wait_until_ready e p = None \<longrightarrow>
            monitor_container_health e p c w =
              (if truthy (config_get (config q) ''ngrok_token'') \<and> template q \<in> set TUNNEL_TEMPLATES
               then state_of (start_ngrok_for_project e (q\<lparr>status := ''running'', updated_at := now e\<rparr>)
                                (py_str (config_get (config q) ''ngrok_token''))
                                (store (q\<lparr>status := ''running'', updated_at := now e\<rparr>) w))
               else store (q\<lparr>status := ''running'', updated_at := now e\<rparr>) w) \<and>
            (\<exists>q'. db_get (projects (monitor_container_health e p c w)) (p_id p) = Some q' \<and>
                  status q' = ''running'')) \<and>
         (\<forall>x. wait_until_ready e p = Some x \<longrightarrow>
            monitor_container_health e p c w = store (q\<lparr>status := ''error'', updated_at := now e\<rparr>) w \<and>
            (\<exists>q'. db_get (projects (monitor_container_health e p c w)) (p_id p) = Some q' \<and>
                  status q' = ''error'') \<and>
            (\<exists>s j. time_sleep e s j = Some x)) \<and>
         ((template p \<in> set NETWORK_TEMPLATES \<or> template p = ''vps'') \<and>
          (\<forall>j<30. time_sleep e 1 j = None) \<longrightarrow> wait_until_ready e p = None) \<and>
         (\<forall>k<30. template p \<in> set NETWORK_TEMPLATES \<and> connect_ex e (port p) k = Inr 0 \<and>
                 (\<forall>j<k. time_sleep e 1 j = None) \<longrightarrow> wait_until_ready e p = None)"
proof (intro conjI impI allI)
  let ?q1 = "q\<lparr>status := ''running'', updated_at := now e\<rparr>"
  have id: "p_id q = p_id p" using assms by (simp add: db_get_id)
  have g1: "db_get (projects (store ?q1 w)) (p_id ?q1) = Some ?q1"
    using assms id by (simp add: db_get_db_put_same)
  {
    assume r: "wait_until_ready e p = None"
    show m: "monitor_container_health e p c w =
              (if truthy (config_get (config q) ''ngrok_token'') \<and> template q \<in> set TUNNEL_TEMPLATES
               then state_of (start_ngrok_for_project e ?q1
                                (py_str (config_get (config q) ''ngrok_token'')) (store ?q1 w))
               else store ?q1 w)"
      using assms r by (simp add: monitor_container_health_def Let_def)
    from start_ngrok_keeps_status [OF g1, of e "py_str (config_get (config q) ''ngrok_token'')"]
    show "\<exists>q'. db_get (projects (monitor_container_health e p c w)) (p_id p) = Some q' \<and>
                  status q' = ''running''"
      unfolding m using g1 id by auto
  }
  {
    fix x assume r: "wait_until_ready e p = Some x"
    show m: "monitor_container_health e p c w = store (q\<lparr>status := ''error'', updated_at := now e\<rparr>) w"
      using assms r by (simp add: monitor_container_health_def)
    show "\<exists>q'. db_get (projects (monitor_container_health e p c w)) (p_id p) = Some q' \<and>
                  status q' = ''error''"
      unfolding m using assms id by (simp add: db_get_db_put_same)
    from r show "\<exists>s j. time_sleep e s j = Some x" by (rule wait_until_ready_raised_by_sleep)
  }
  {
    assume a: "(template p \<in> set NETWORK_TEMPLATES \<or> template p = ''vps'') \<and>
               (\<forall>j<30. time_sleep e 1 j = None)"
    then have "wait_for_port e prt 0 30 = None" for prt
      by (intro wait_for_port_sleeps_ok) simp
    with a show "wait_until_ready e p = None"
      by (auto simp: wait_until_ready_def)
  }
  {
    fix k :: nat
    assume k: "k < 30"
       and a: "template p \<in> set NETWORK_TEMPLATES \<and> connect_ex e (port p) k = Inr 0 \<and>
               (\<forall>j<k. time_sleep e 1 j = None)"
    have "wait_for_port e (port p) 0 30 = None"
      by (rule wait_for_port_reachable [of e "port p" k]) (use a k in auto)
    with a show "wait_until_ready e p = None" by (simp add: wait_until_ready_def)
  }
qed

theorem readiness_monitor_outcome_witness:
  "db_get (projects world_started) (p_id project_l) = Some (project_s\<lparr>status := ''deploying''\<rparr>) \<and>
   template project_l \<in> set NETWORK_TEMPLATES \<and>
   time_sleep env0 1 = (\<lambda>j. None) \<and> connect_ex env0 (port project_l) = (\<lambda>j. Inr 111) \<and>
   wait_until_ready env0 project_l = None \<and>
   (\<exists>q'. db_get (projects (monitor_container_health env0 project_l ''c0ffee'' world_started))
             (p_id project_l) = Some q' \<and> status q' = ''running'') \<and>
   wait_until_ready env_interrupted project_l = Some (LibraryError ''interrupted'') \<and>
   (\<exists>q'. db_get (projects (monitor_container_health env_interrupted project_l ''c0ffee'' world_started))
             (p_id project_l) = Some q' \<and> status q' = ''error'')"
proof -
  note a = own_started
  have b: "template project_l \<in> set NETWORK_TEMPLATES"
    by (simp add: project_l_def project_s_def project0_def NETWORK_TEMPLATES_def)
  have c: "\<forall>j<30. time_sleep env0 1 j = None" by (simp add: env0_def)
  have d: "time_sleep env0 1 = (\<lambda>j. None)" "connect_ex env0 (port project_l) = (\<lambda>j. Inr 111)"
    by (simp_all add: env0_def)
  have "wait_for_port env_interrupted prt 0 30 = Some (LibraryError ''interrupted'')" for prt
    by (rule wait_for_port_first_sleep_raises) (simp_all add: env_interrupted_def env0_def)
  with b have i: "wait_until_ready env_interrupted project_l = Some (LibraryError ''interrupted'')"
    by (simp add: wait_until_ready_def)
  note t0 = readiness_monitor_outcome [OF a, of env0 "''c0ffee''"]
  from t0 b c have 1: "wait_until_ready env0 project_l = None" by blast
  from t0 [THEN conjunct1, THEN mp, OF 1, THEN conjunct2]
  have 2: "\<exists>q'. db_get (projects (monitor_container_health env0 project_l ''c0ffee'' world_started))
             (p_id project_l) = Some q' \<and> status q' = ''running''" .
  note t1 = readiness_monitor_outcome [OF a, of env_interrupted "''c0ffee''"]
  from t1 [THEN conjunct2, THEN conjunct1, THEN spec, THEN mp, OF i, THEN conjunct2, THEN conjunct1]
  have 3: "\<exists>q'. db_get (projects (monitor_container_health env_interrupted project_l ''c0ffee'' world_started))
             (p_id project_l) = Some q' \<and> status q' = ''error''" .
  show ?thesis using a b d i 1 2 3 by simp
qed

section \<open>Deleting a project\<close>




end
